theory Spec2Isabelle
  imports Main "HOL-Library.Word"
begin

section \<open>Data model of jpeg-decode-wrapper.c\<close>

text \<open>
  The wrapper is a thin layer over libjpeg. libjpeg itself is an external library, so it
  is a parameter of the model (\<open>libjpeg\<close> below): every library entry point the wrapper
  calls is a field, and a call either returns or invokes the error manager's
  \<open>error_exit\<close> callback (libjpeg's only way of reporting a fatal error).
\<close>

type_synonym byte = "8 word"
type_synonym JDIMENSION = "32 word"    \<comment> \<open>\<open>unsigned int\<close>\<close>
type_synonym size_t = "32 word"        \<comment> \<open>the WebAssembly (wasm32) target of this build\<close>

text \<open>
  The caller's memory from \<open>dst\<close> upwards: \<open>m i\<close> is the byte at address \<open>dst + i\<close>.
  The declared capacity \<open>dstSize\<close> is a separate argument, so a write at an index
  \<open>\<ge> dstSize\<close> is a write past the caller's buffer.
\<close>

type_synonym mem = "nat \<Rightarrow> byte"

definition MAX_CHUNK_DIM :: int where
  "MAX_CHUNK_DIM = 4096"

definition JPEG_DECODE_VERSION :: int where
  "JPEG_DECODE_VERSION = 1"

text \<open>\<open>jpeglib.h\<close>: the return codes of \<open>jpeg_read_header\<close>.\<close>

definition JPEG_SUSPENDED :: int where
  "JPEG_SUSPENDED = 0"

definition JPEG_HEADER_OK :: int where
  "JPEG_HEADER_OK = 1"

datatype J_COLOR_SPACE = JCS_UNKNOWN | JCS_GRAYSCALE | JCS_RGB | JCS_YCbCr | JCS_CMYK | JCS_YCCK

text \<open>
  \<open>struct jpeg_decompress_struct\<close>: the fields the wrapper reads or writes, and the rest
  of the library's state as the opaque \<open>internal\<close> (it also holds the attached source).
\<close>

record 'c jpeg_decompress_struct =
  image_width :: JDIMENSION
  image_height :: JDIMENSION
  out_color_space :: J_COLOR_SPACE
  output_width :: JDIMENSION
  output_height :: JDIMENSION
  output_scanline :: JDIMENSION
  internal :: 'c

text \<open>
  A library call on \<open>&g_cinfo\<close>: it returns a value and leaves a new decompressor state,
  or it calls \<open>cinfo->err->error_exit\<close> in the state it has reached.
\<close>

datatype ('r, 's) call = Returns 'r 's | Error_exit 's

text \<open>
  The library. \<open>jpeg_read_scanlines lib cinfo\<close> is the call with \<open>max_lines = 1\<close>; the
  samples the library stores through the row pointer it is given come back as a list (next to
  the new state), and the wrapper's model stores them at that pointer.
  \<open>jpeg_abort_decompress\<close> and \<open>jpeg_destroy_decompress\<close> only release the library's
  memory pools and are taken to return always.
\<close>

record 'c libjpeg =
  jpeg_create_decompress :: "'c jpeg_decompress_struct \<Rightarrow> (unit, 'c jpeg_decompress_struct) call"
  jpeg_mem_src :: "'c jpeg_decompress_struct \<Rightarrow> byte list \<Rightarrow> 32 word
                     \<Rightarrow> (unit, 'c jpeg_decompress_struct) call"
  jpeg_read_header :: "'c jpeg_decompress_struct \<Rightarrow> bool \<Rightarrow> (int, 'c jpeg_decompress_struct) call"
  jpeg_start_decompress :: "'c jpeg_decompress_struct \<Rightarrow> (bool, 'c jpeg_decompress_struct) call"
  jpeg_read_scanlines :: "'c jpeg_decompress_struct
                     \<Rightarrow> (JDIMENSION, 'c jpeg_decompress_struct \<times> byte list) call"
  jpeg_finish_decompress :: "'c jpeg_decompress_struct \<Rightarrow> (bool, 'c jpeg_decompress_struct) call"
  jpeg_abort_decompress :: "'c jpeg_decompress_struct \<Rightarrow> 'c jpeg_decompress_struct"
  jpeg_destroy_decompress :: "'c jpeg_decompress_struct \<Rightarrow> 'c jpeg_decompress_struct"

text \<open>
  The value of the function pointer \<open>g_jerr.pub.error_exit\<close>: null in the zero-initialised
  static, libjpeg's default (which prints the message and calls \<open>exit\<close>) after
  \<open>jpeg_std_error\<close>, and the wrapper's \<open>error_exit_handler\<close>, which does
  \<open>longjmp(ctx->jmpbuf, 1)\<close>.
\<close>

datatype error_exit_fn = null_error_exit | std_error_exit | error_exit_handler

text \<open>The three statics \<open>g_cinfo\<close>, \<open>g_jerr\<close> and \<open>g_initialized\<close>.\<close>

record 'c globals =
  g_cinfo :: "'c jpeg_decompress_struct"
  g_jerr_error_exit :: error_exit_fn
  g_initialized :: int

definition initial_globals :: "'c \<Rightarrow> 'c globals" where
  "initial_globals c0 =
     \<lparr>g_cinfo = \<lparr>image_width = 0, image_height = 0, out_color_space = JCS_UNKNOWN,
                 output_width = 0, output_height = 0, output_scanline = 0, internal = c0\<rparr>,
      g_jerr_error_exit = null_error_exit,
      g_initialized = 0\<rparr>"

text \<open>What a call of the wrapper leaves: it returns to the host, or the process is gone.\<close>

datatype 'a control = Return 'a | Process_terminated

section \<open>The operations\<close>

definition jpeg_decode_version :: int where
  "jpeg_decode_version = JPEG_DECODE_VERSION"

text \<open>
  \<open>jpeg_decode_init\<close>. Lines 40 and 41 wire the error manager before the library is
  called on line 47, so an \<open>error_exit\<close> inside \<open>jpeg_create_decompress\<close> runs
  \<open>error_exit_handler\<close>: the \<open>setjmp\<close> of line 43 returns a second time and the
  function returns -1 with \<open>g_initialized\<close> still 0.
\<close>

definition jpeg_decode_init :: "'c libjpeg \<Rightarrow> 'c globals \<Rightarrow> int \<times> 'c globals" where
  "jpeg_decode_init lib s =
     (if g_initialized s \<noteq> 0 then (0, s)
      else
        let s1 = s\<lparr>g_jerr_error_exit := std_error_exit\<rparr>;
            s2 = s1\<lparr>g_jerr_error_exit := error_exit_handler\<rparr>
        in case jpeg_create_decompress lib (g_cinfo s2) of
             Error_exit c \<Rightarrow> (- 1, s2\<lparr>g_cinfo := c\<rparr>)
           | Returns _ c \<Rightarrow> (0, s2\<lparr>g_cinfo := c, g_initialized := 1\<rparr>))"

text \<open>Storing a row of samples at offset \<open>p\<close> of the caller's memory.\<close>

definition store :: "mem \<Rightarrow> nat \<Rightarrow> byte list \<Rightarrow> mem" where
  "store m p bs = (\<lambda>i. if p \<le> i \<and> i < p + length bs then bs ! (i - p) else m i)"

text \<open>
  The scanline loop of lines 91 to 96. \<open>row_ptr\<close> is the offset of the row pointer from
  \<open>dst\<close>. The loop ends when the library's \<open>output_scanline\<close> reaches
  \<open>output_height\<close>, or when the library calls \<open>error_exit\<close>; nothing in the wrapper
  bounds the number of iterations, so a run that never ends is \<open>None\<close>.
\<close>

datatype 'c loop_exit =
    Loop_done "'c jpeg_decompress_struct" nat mem
  | Loop_error_exit "'c jpeg_decompress_struct" mem

partial_function (option) read_rows ::
  "'c libjpeg \<Rightarrow> 'c jpeg_decompress_struct \<Rightarrow> nat \<Rightarrow> mem \<Rightarrow> 'c loop_exit option" where
  "read_rows lib cinfo row_ptr m =
     (if output_scanline cinfo < output_height cinfo then
        (case jpeg_read_scanlines lib cinfo of
           Error_exit (cinfo', bs) \<Rightarrow> Some (Loop_error_exit cinfo' (store m row_ptr bs))
         | Returns _ (cinfo', bs) \<Rightarrow>
             read_rows lib cinfo' (row_ptr + unat (output_width cinfo')) (store m row_ptr bs))
      else Some (Loop_done cinfo row_ptr m))"

declare read_rows.simps [code]

text \<open>
  Lines 68 to 102, the part of \<open>jpeg_decode_gray\<close> that runs under the \<open>setjmp\<close> of
  line 62. It leaves by one of the \<open>return\<close> statements, with the status, the
  decompressor, the caller's memory and the two out-parameter slots, or by an
  \<open>error_exit\<close> of the library.
\<close>

datatype 'c body_exit =
    Body_return int "'c jpeg_decompress_struct" mem int int
  | Body_error_exit "'c jpeg_decompress_struct" mem

definition required_bytes :: "int \<Rightarrow> int \<Rightarrow> size_t" where
  "required_bytes width height = word_of_int width * word_of_int height"

definition decode_body ::
  "'c libjpeg \<Rightarrow> 'c jpeg_decompress_struct \<Rightarrow> byte list \<Rightarrow> 32 word \<Rightarrow> mem \<Rightarrow> 32 word
     \<Rightarrow> int \<Rightarrow> int \<Rightarrow> 'c body_exit option" where
  "decode_body lib cinfo src srcSize m dstSize outWidth outHeight =
     (case jpeg_mem_src lib cinfo src srcSize of
        Error_exit c \<Rightarrow> Some (Body_error_exit c m)
      | Returns _ c1 \<Rightarrow>
     (case jpeg_read_header lib c1 True of
        Error_exit c \<Rightarrow> Some (Body_error_exit c m)
      | Returns rc c2 \<Rightarrow>
          if rc \<noteq> JPEG_HEADER_OK then Some (Body_return (- 2) c2 m outWidth outHeight)
          else
            let width = sint (image_width c2);
                height = sint (image_height c2)
            in
              if width \<le> 0 \<or> height \<le> 0 then Some (Body_return (- 2) c2 m outWidth outHeight)
              else if width > MAX_CHUNK_DIM \<or> height > MAX_CHUNK_DIM
                then Some (Body_return (- 2) c2 m outWidth outHeight)
              else
                let required = required_bytes width height in
                  if required > dstSize then Some (Body_return (- 3) c2 m outWidth outHeight)
                  else
                    (case jpeg_start_decompress lib (c2\<lparr>out_color_space := JCS_GRAYSCALE\<rparr>) of
                       Error_exit c \<Rightarrow> Some (Body_error_exit c m)
                     | Returns _ c3 \<Rightarrow>
                    (case read_rows lib c3 0 m of
                       None \<Rightarrow> None
                     | Some (Loop_error_exit c m') \<Rightarrow> Some (Body_error_exit c m')
                     | Some (Loop_done c4 _ m') \<Rightarrow>
                    (case jpeg_finish_decompress lib c4 of
                       Error_exit c \<Rightarrow> Some (Body_error_exit c m')
                     | Returns _ c5 \<Rightarrow> Some (Body_return 0 c5 m' width height))))))"

text \<open>What the caller sees after \<open>jpeg_decode_gray\<close> has returned.\<close>

record 'c decoded =
  status :: int
  globals :: "'c globals"
  dst :: mem
  outWidth :: int
  outHeight :: int

text \<open>
  \<open>jpeg_decode_gray\<close>. When the library calls \<open>error_exit\<close>, the function that
  \<open>g_jerr.pub.error_exit\<close> points to runs: \<open>error_exit_handler\<close> jumps back to line 62,
  where \<open>setjmp\<close> now returns 1, the decompression is aborted and -4 is returned; any
  other value of the pointer ends the process.
\<close>

definition jpeg_decode_gray ::
  "'c libjpeg \<Rightarrow> 'c globals \<Rightarrow> byte list \<Rightarrow> 32 word \<Rightarrow> mem \<Rightarrow> 32 word \<Rightarrow> int \<Rightarrow> int
     \<Rightarrow> 'c decoded control option" where
  "jpeg_decode_gray lib s src srcSize m dstSize ow oh =
     (if g_initialized s = 0
      then Some (Return \<lparr>status = - 1, globals = s, dst = m, outWidth = ow, outHeight = oh\<rparr>)
      else
        (case decode_body lib (g_cinfo s) src srcSize m dstSize ow oh of
           None \<Rightarrow> None
         | Some (Body_return st c m' w h) \<Rightarrow>
             Some (Return \<lparr>status = st, globals = s\<lparr>g_cinfo := c\<rparr>, dst = m',
                           outWidth = w, outHeight = h\<rparr>)
         | Some (Body_error_exit c m') \<Rightarrow>
             (case g_jerr_error_exit s of
                error_exit_handler \<Rightarrow>
                  Some (Return \<lparr>status = - 4,
                                globals = s\<lparr>g_cinfo := jpeg_abort_decompress lib c\<rparr>,
                                dst = m', outWidth = ow, outHeight = oh\<rparr>)
              | _ \<Rightarrow> Some Process_terminated)))"

definition jpeg_decode_destroy :: "'c libjpeg \<Rightarrow> 'c globals \<Rightarrow> int \<times> 'c globals" where
  "jpeg_decode_destroy lib s =
     (if g_initialized s \<noteq> 0
      then (0, s\<lparr>g_cinfo := jpeg_destroy_decompress lib (g_cinfo s), g_initialized := 0\<rparr>)
      else (0, s))"


text \<open>The caller's memory as the body of a decode call leaves it.\<close>

definition exit_mem :: "'c body_exit \<Rightarrow> mem" where
  "exit_mem e = (case e of Body_return st c m w h \<Rightarrow> m | Body_error_exit c m \<Rightarrow> m)"

text \<open>The record a call hands back when it returns to the host.\<close>

definition returned :: "'c decoded control option \<Rightarrow> 'c decoded option" where
  "returned x = (case x of Some (Return d) \<Rightarrow> Some d | _ \<Rightarrow> None)"

text \<open>The status and one destination byte of a call that returned.\<close>

definition status_of :: "'c decoded control option \<Rightarrow> int option" where
  "status_of x = map_option status (returned x)"

definition dst_at :: "'c decoded control option \<Rightarrow> nat \<Rightarrow> byte option" where
  "dst_at x i = map_option (\<lambda>d. dst d i) (returned x)"

section \<open>The handle, the library's interface contract, and well-formed streams\<close>

text \<open>
  The handle is ready when \<open>g_initialized\<close> is set. \<open>wired\<close> is the invariant that a
  ready handle has \<open>error_exit_handler\<close> installed; \<open>reachable\<close> are the states the
  four operations can produce from the zero-initialised statics.
\<close>

definition wired :: "'c globals \<Rightarrow> bool" where
  "wired s = (g_initialized s \<noteq> 0 \<longrightarrow> g_jerr_error_exit s = error_exit_handler)"

definition ready :: "'c globals \<Rightarrow> bool" where
  "ready s = (g_initialized s \<noteq> 0 \<and> g_jerr_error_exit s = error_exit_handler)"

inductive reachable :: "'c libjpeg \<Rightarrow> 'c globals \<Rightarrow> bool" for lib :: "'c libjpeg" where
  at_start: "reachable lib (initial_globals c0)"
| after_init: "reachable lib s \<Longrightarrow> reachable lib (snd (jpeg_decode_init lib s))"
| after_decode:
    "reachable lib s \<Longrightarrow> jpeg_decode_gray lib s src srcSize m dstSize ow oh = Some (Return r)
       \<Longrightarrow> reachable lib (globals r)"
| after_destroy: "reachable lib s \<Longrightarrow> reachable lib (snd (jpeg_decode_destroy lib s))"

text \<open>
  What libjpeg's interface promises about the calls of lines 88 and 94 (\<open>libjpeg.txt\<close>):
  without a scaling request, \<open>jpeg_start_decompress\<close> sets the output dimensions to the
  image dimensions and \<open>output_scanline\<close> to 0; with a memory source, which never
  suspends, \<open>jpeg_read_scanlines\<close> with \<open>max_lines = 1\<close> below the last row stores one
  row of \<open>output_width\<close> samples (one component in grayscale) and advances
  \<open>output_scanline\<close> by one, and stores no more than one row when it fails.
\<close>

definition libjpeg_api :: "'c libjpeg \<Rightarrow> bool" where
  "libjpeg_api lib =
     ((\<forall>c r c'. jpeg_start_decompress lib c = Returns r c' \<longrightarrow>
         output_width c' = image_width c \<and> output_height c' = image_height c \<and>
         output_scanline c' = 0) \<and>
      (\<forall>c. output_scanline c < output_height c \<longrightarrow>
         (case jpeg_read_scanlines lib c of
            Returns r (c', bs) \<Rightarrow>
              length bs = unat (output_width c) \<and> output_width c' = output_width c \<and>
              output_height c' = output_height c \<and> output_scanline c' = output_scanline c + 1
          | Error_exit (c', bs) \<Rightarrow> length bs \<le> unat (output_width c))))"

text \<open>
  A library whose \<open>jpeg_create_decompress\<close> fails the same way when it is called again
  on the decompressor a failed call has left (libjpeg fails there on a version or structure
  size mismatch, or for lack of memory).
\<close>

definition create_failure_repeats :: "'c libjpeg \<Rightarrow> bool" where
  "create_failure_repeats lib =
     (\<forall>c c'. jpeg_create_decompress lib c = Error_exit c' \<longrightarrow>
        jpeg_create_decompress lib c' = Error_exit c')"

text \<open>
  The rows the library delivers when it is asked for \<open>n\<close> more scanlines and neither
  fails nor stops early: each holds \<open>output_width\<close> samples.
\<close>

fun codec_rows ::
  "'c libjpeg \<Rightarrow> 'c jpeg_decompress_struct \<Rightarrow> nat
     \<Rightarrow> (byte list list \<times> 'c jpeg_decompress_struct) option" where
  "codec_rows lib c 0 = (if output_scanline c < output_height c then None else Some ([], c))"
| "codec_rows lib c (Suc n) =
     (if output_scanline c < output_height c then
        (case jpeg_read_scanlines lib c of
           Error_exit _ \<Rightarrow> None
         | Returns _ (c', bs) \<Rightarrow>
             if length bs = unat (output_width c) \<and> output_width c' = output_width c then
               (case codec_rows lib c' n of
                  None \<Rightarrow> None
                | Some (rows, c'') \<Rightarrow> Some (bs # rows, c''))
             else None)
      else None)"

text \<open>
  A stream is a well-formed grayscale-convertible JPEG of width \<open>W\<close> and height \<open>H\<close>,
  for the library in state \<open>c\<close>, when the library takes it without an error: the header
  parses to \<open>W\<close> and \<open>H\<close>, decompression starts with these output dimensions, \<open>H\<close> rows
  of \<open>W\<close> samples come out, and decompression finishes. \<open>codec_image\<close> is then the
  decoded image, and \<open>None\<close> for every other stream.
\<close>

definition codec_image ::
  "'c libjpeg \<Rightarrow> 'c jpeg_decompress_struct \<Rightarrow> byte list \<Rightarrow> 32 word
     \<Rightarrow> (JDIMENSION \<times> JDIMENSION \<times> byte list list) option" where
  "codec_image lib c src srcSize =
     (case jpeg_mem_src lib c src srcSize of
        Error_exit _ \<Rightarrow> None
      | Returns _ c1 \<Rightarrow>
     (case jpeg_read_header lib c1 True of
        Error_exit _ \<Rightarrow> None
      | Returns rc c2 \<Rightarrow>
          if rc \<noteq> JPEG_HEADER_OK then None
          else
            (case jpeg_start_decompress lib (c2\<lparr>out_color_space := JCS_GRAYSCALE\<rparr>) of
               Error_exit _ \<Rightarrow> None
             | Returns _ c3 \<Rightarrow>
                 if output_width c3 = image_width c2 \<and> output_height c3 = image_height c2 then
                   (case codec_rows lib c3 (unat (image_height c2)) of
                      None \<Rightarrow> None
                    | Some (rows, c4) \<Rightarrow>
                        (case jpeg_finish_decompress lib c4 of
                           Error_exit _ \<Rightarrow> None
                         | Returns _ _ \<Rightarrow> Some (image_width c2, image_height c2, rows)))
                 else None)))"

text \<open>
  The header as the library parses it (lines 68 and 70): the return code of
  \<open>jpeg_read_header\<close> and the decompressor it leaves, or \<open>None\<close> when one of the two
  calls ends in \<open>error_exit\<close>.
\<close>

definition parsed_header ::
  "'c libjpeg \<Rightarrow> 'c jpeg_decompress_struct \<Rightarrow> byte list \<Rightarrow> 32 word
     \<Rightarrow> (int \<times> 'c jpeg_decompress_struct) option" where
  "parsed_header lib c src srcSize =
     (case jpeg_mem_src lib c src srcSize of
        Error_exit _ \<Rightarrow> None
      | Returns _ c1 \<Rightarrow>
          (case jpeg_read_header lib c1 True of
             Error_exit _ \<Rightarrow> None
           | Returns rc c2 \<Rightarrow> Some (rc, c2)))"

text \<open>
  Lines 78 to 83 on the decompressor the header parse has left: both dimensions, read as
  \<open>int\<close>, are positive and at most \<open>MAX_CHUNK_DIM\<close>, and the required size is within
  the declared capacity.
\<close>

definition gates_passed :: "'c jpeg_decompress_struct \<Rightarrow> 32 word \<Rightarrow> bool" where
  "gates_passed c2 dstSize =
     (0 < sint (image_width c2) \<and> sint (image_width c2) \<le> MAX_CHUNK_DIM \<and>
      0 < sint (image_height c2) \<and> sint (image_height c2) \<le> MAX_CHUNK_DIM \<and>
      required_bytes (sint (image_width c2)) (sint (image_height c2)) \<le> dstSize)"

text \<open>
  What the library does when \<open>jpeg_read_scanlines\<close> is called on it again and again
  while \<open>output_scanline\<close> is below \<open>output_height\<close>, at most \<open>k\<close> times: it
  reaches the last row, or one of the calls ends in \<open>error_exit\<close>. Only the library's own
  functions and fields occur here.
\<close>

datatype 'c scan_end =
    Scan_done "'c jpeg_decompress_struct"
  | Scan_error_exit "'c jpeg_decompress_struct"

fun lib_scan ::
  "'c libjpeg \<Rightarrow> 'c jpeg_decompress_struct \<Rightarrow> nat \<Rightarrow> 'c scan_end option" where
  "lib_scan lib c 0 =
     (if output_scanline c < output_height c then None else Some (Scan_done c))"
| "lib_scan lib c (Suc k) =
     (if output_scanline c < output_height c then
        (case jpeg_read_scanlines lib c of
           Error_exit (c', bs) \<Rightarrow> Some (Scan_error_exit c')
         | Returns _ (c', bs) \<Rightarrow> lib_scan lib c' k)
      else Some (Scan_done c))"

text \<open>
  The idle decompressors of a library are those on which a new image can be started
  (libjpeg's state after \<open>jpeg_create_decompress\<close>). \<open>jpeg_abort_decompress\<close> is
  documented to return the decompressor to that state from any state. A stream is a
  well-formed grayscale-convertible JPEG of width \<open>W\<close> and height \<open>H\<close> when the library
  decodes it to the same image from every idle decompressor; this does not depend on the
  decompressor a handle happens to hold.
\<close>

definition abort_makes_idle ::
  "'c libjpeg \<Rightarrow> ('c jpeg_decompress_struct \<Rightarrow> bool) \<Rightarrow> bool" where
  "abort_makes_idle lib idle = (\<forall>c. idle (jpeg_abort_decompress lib c))"

definition well_formed_jpeg ::
  "'c libjpeg \<Rightarrow> ('c jpeg_decompress_struct \<Rightarrow> bool) \<Rightarrow> byte list \<Rightarrow> 32 word
     \<Rightarrow> JDIMENSION \<Rightarrow> JDIMENSION \<Rightarrow> byte list list \<Rightarrow> bool" where
  "well_formed_jpeg lib idle src srcSize W H rows =
     (\<forall>c. idle c \<longrightarrow> codec_image lib c src srcSize = Some (W, H, rows))"

text \<open>The statics after a call, for the next call on the same handle.\<close>

definition handle_after :: "'c decoded control option \<Rightarrow> 'c globals \<Rightarrow> 'c globals" where
  "handle_after x s = (case returned x of Some d \<Rightarrow> globals d | None \<Rightarrow> s)"

section \<open>The outcomes of the specification\<close>

datatype DecodeOutcome =
    Success int int
  | NotReady
  | HeaderInvalid
  | DimensionOutOfRange
  | BufferTooSmall
  | CodecFault

text \<open>The status codes of the interface table of the specification.\<close>

fun status_code :: "DecodeOutcome \<Rightarrow> int" where
  "status_code (Success w h) = 0"
| "status_code NotReady = - 1"
| "status_code HeaderInvalid = - 2"
| "status_code DimensionOutOfRange = - 2"
| "status_code BufferTooSmall = - 3"
| "status_code CodecFault = - 4"

text \<open>
  The outcome of a decode call after the ten steps of the specification's contract,
  written from its words: every gate names its own outcome, and a fault of the codec in
  steps 3 to 9 is \<open>CodecFault\<close>. It is compared with the status \<open>jpeg_decode_gray\<close>
  returns.
\<close>

definition spec_decode_outcome ::
  "'c libjpeg \<Rightarrow> 'c globals \<Rightarrow> byte list \<Rightarrow> 32 word \<Rightarrow> mem \<Rightarrow> 32 word
     \<Rightarrow> DecodeOutcome option" where
  "spec_decode_outcome lib s src srcSize m dstSize =
     (if g_initialized s = 0 then Some NotReady
      else
        (case jpeg_mem_src lib (g_cinfo s) src srcSize of
           Error_exit _ \<Rightarrow> Some CodecFault
         | Returns _ c1 \<Rightarrow>
        (case jpeg_read_header lib c1 True of
           Error_exit _ \<Rightarrow> Some CodecFault
         | Returns rc c2 \<Rightarrow>
             if rc \<noteq> JPEG_HEADER_OK then Some HeaderInvalid
             else
               let W = sint (image_width c2); H = sint (image_height c2) in
                 if \<not> (0 < W \<and> 0 < H \<and> W \<le> 4096 \<and> H \<le> 4096) then Some DimensionOutOfRange
                 else if W * H > uint dstSize then Some BufferTooSmall
                 else
                   (case jpeg_start_decompress lib (c2\<lparr>out_color_space := JCS_GRAYSCALE\<rparr>) of
                      Error_exit _ \<Rightarrow> Some CodecFault
                    | Returns _ c3 \<Rightarrow>
                   (case read_rows lib c3 0 m of
                      None \<Rightarrow> None
                    | Some (Loop_error_exit _ _) \<Rightarrow> Some CodecFault
                    | Some (Loop_done c4 _ _) \<Rightarrow>
                   (case jpeg_finish_decompress lib c4 of
                      Error_exit _ \<Rightarrow> Some CodecFault
                    | Returns _ _ \<Rightarrow> Some (Success W H)))))))"

section \<open>A small codec to run the wrapper on\<close>

text \<open>
  An instance of the library's interface for concrete runs. Its streams are the two
  bytes FF D8, the width and the height as two big-endian bytes each, and then the gray
  samples row by row. Like libjpeg it calls \<open>error_exit\<close> on an empty source, on a stream
  that does not start with FF D8, and when the sample data ends early; an incomplete
  header makes \<open>jpeg_read_header\<close> return \<open>JPEG_SUSPENDED\<close>.
\<close>

definition toy_read_header ::
  "byte list jpeg_decompress_struct \<Rightarrow> bool \<Rightarrow> (int, byte list jpeg_decompress_struct) call" where
  "toy_read_header c require_image =
     (let bs = internal c in
        if 2 \<le> length bs \<and> (bs ! 0 \<noteq> 0xFF \<or> bs ! 1 \<noteq> 0xD8) then Error_exit c
        else if length bs < 6 then Returns JPEG_SUSPENDED c
        else Returns JPEG_HEADER_OK
               (c\<lparr>image_width := 256 * ucast (bs ! 2) + ucast (bs ! 3),
                  image_height := 256 * ucast (bs ! 4) + ucast (bs ! 5)\<rparr>))"

definition toy_read_scanlines ::
  "byte list jpeg_decompress_struct
     \<Rightarrow> (JDIMENSION, byte list jpeg_decompress_struct \<times> byte list) call" where
  "toy_read_scanlines c =
     (let w = unat (output_width c);
          off = 6 + unat (output_scanline c) * w
      in if length (internal c) < off + w then Error_exit (c, [])
         else Returns 1 (c\<lparr>output_scanline := output_scanline c + 1\<rparr>,
                         take w (drop off (internal c))))"

definition toy_codec :: "byte list libjpeg" where
  "toy_codec =
     \<lparr>jpeg_create_decompress = (\<lambda>c. Returns () (c\<lparr>internal := []\<rparr>)),
      jpeg_mem_src = (\<lambda>c src srcSize.
         if srcSize = 0 then Error_exit c
         else Returns () (c\<lparr>internal := take (unat srcSize) src\<rparr>)),
      jpeg_read_header = toy_read_header,
      jpeg_start_decompress = (\<lambda>c.
         Returns True (c\<lparr>output_width := image_width c, output_height := image_height c,
                         output_scanline := 0\<rparr>)),
      jpeg_read_scanlines = toy_read_scanlines,
      jpeg_finish_decompress = (\<lambda>c. Returns True c),
      jpeg_abort_decompress = (\<lambda>c. c\<lparr>output_scanline := 0, internal := []\<rparr>),
      jpeg_destroy_decompress = (\<lambda>c. c\<lparr>internal := []\<rparr>)\<rparr>"

text \<open>The same codec on a host where creating the decompressor fails.\<close>

definition failing_codec :: "byte list libjpeg" where
  "failing_codec = toy_codec\<lparr>jpeg_create_decompress := (\<lambda>c. Error_exit c)\<rparr>"

text \<open>The handle after a first \<open>jpeg_decode_init\<close>, and a caller's memory of zeros.\<close>

definition toy_ready :: "byte list globals" where
  "toy_ready = snd (jpeg_decode_init toy_codec (initial_globals []))"

definition zeros :: mem where
  "zeros = (\<lambda>i. 0)"

text \<open>A 2 by 2 image, the same stream cut inside its second row, and four random bytes.\<close>

definition img2x2 :: "byte list" where
  "img2x2 = [0xFF, 0xD8, 0, 2, 0, 2, 10, 20, 30, 40]"

definition img2x2_cut :: "byte list" where
  "img2x2_cut = [0xFF, 0xD8, 0, 2, 0, 2, 10, 20, 30]"

definition not_jpeg :: "byte list" where
  "not_jpeg = [0x12, 0x34, 0x56, 0x78]"

text \<open>A header cut to four bytes, and a header that claims 5000 by 2.\<close>

definition cut_header :: "byte list" where
  "cut_header = [0xFF, 0xD8, 0, 2]"

definition wide_header :: "byte list" where
  "wide_header = [0xFF, 0xD8, 0x13, 0x88, 0, 2]"

text \<open>A well-formed 2 by 2 image followed by one more byte.\<close>

definition img2x2_tail :: "byte list" where
  "img2x2_tail = [0xFF, 0xD8, 0, 2, 0, 2, 10, 20, 30, 40, 0x99]"

text \<open>
  A second codec that, like libjpeg, checks the call sequence. It keeps the state of the
  decompressor next to the attached bytes: \<open>jpeg_read_header\<close> calls \<open>error_exit\<close> on a
  decompressor whose header is already parsed or that is delivering scanlines, and when it
  meets the start of a new stream while an earlier header parse is still suspended;
  \<open>jpeg_start_decompress\<close>, \<open>jpeg_read_scanlines\<close> and \<open>jpeg_finish_decompress\<close>
  call it outside their state, and \<open>jpeg_finish_decompress\<close> also when bytes follow the
  last row. Only \<open>jpeg_create_decompress\<close>, \<open>jpeg_finish_decompress\<close>,
  \<open>jpeg_abort_decompress\<close> and \<open>jpeg_destroy_decompress\<close> lead back to the idle state.
\<close>

datatype dstate = DSTATE_START | DSTATE_INHEADER | DSTATE_READY | DSTATE_SCANNING

definition strict_read_header ::
  "(dstate \<times> byte list) jpeg_decompress_struct \<Rightarrow> bool
     \<Rightarrow> (int, (dstate \<times> byte list) jpeg_decompress_struct) call" where
  "strict_read_header c require_image =
     (let st = fst (internal c); bs = snd (internal c) in
        if st = DSTATE_READY \<or> st = DSTATE_SCANNING then Error_exit c
        else if 2 \<le> length bs \<and> (bs ! 0 \<noteq> 0xFF \<or> bs ! 1 \<noteq> 0xD8) then Error_exit c
        else if st = DSTATE_INHEADER \<and> 2 \<le> length bs then Error_exit c
        else if length bs < 6 then Returns JPEG_SUSPENDED (c\<lparr>internal := (DSTATE_INHEADER, bs)\<rparr>)
        else Returns JPEG_HEADER_OK
               (c\<lparr>image_width := 256 * ucast (bs ! 2) + ucast (bs ! 3),
                  image_height := 256 * ucast (bs ! 4) + ucast (bs ! 5),
                  internal := (DSTATE_READY, bs)\<rparr>))"

definition strict_read_scanlines ::
  "(dstate \<times> byte list) jpeg_decompress_struct
     \<Rightarrow> (JDIMENSION, (dstate \<times> byte list) jpeg_decompress_struct \<times> byte list) call" where
  "strict_read_scanlines c =
     (let w = unat (output_width c);
          off = 6 + unat (output_scanline c) * w;
          bs = snd (internal c)
      in if fst (internal c) \<noteq> DSTATE_SCANNING \<or> length bs < off + w then Error_exit (c, [])
         else Returns 1 (c\<lparr>output_scanline := output_scanline c + 1\<rparr>, take w (drop off bs)))"

definition strict_codec :: "(dstate \<times> byte list) libjpeg" where
  "strict_codec =
     \<lparr>jpeg_create_decompress = (\<lambda>c. Returns () (c\<lparr>internal := (DSTATE_START, [])\<rparr>)),
      jpeg_mem_src = (\<lambda>c src srcSize.
         if srcSize = 0 then Error_exit c
         else Returns () (c\<lparr>internal := (fst (internal c), take (unat srcSize) src)\<rparr>)),
      jpeg_read_header = strict_read_header,
      jpeg_start_decompress = (\<lambda>c.
         if fst (internal c) \<noteq> DSTATE_READY then Error_exit c
         else Returns True (c\<lparr>output_width := image_width c, output_height := image_height c,
                              output_scanline := 0,
                              internal := (DSTATE_SCANNING, snd (internal c))\<rparr>)),
      jpeg_read_scanlines = strict_read_scanlines,
      jpeg_finish_decompress = (\<lambda>c.
         if fst (internal c) \<noteq> DSTATE_SCANNING \<or>
            6 + unat (output_height c) * unat (output_width c) < length (snd (internal c))
         then Error_exit c
         else Returns True (c\<lparr>internal := (DSTATE_START, snd (internal c))\<rparr>)),
      jpeg_abort_decompress = (\<lambda>c. c\<lparr>output_scanline := 0, internal := (DSTATE_START, [])\<rparr>),
      jpeg_destroy_decompress = (\<lambda>c. c\<lparr>internal := (DSTATE_START, [])\<rparr>)\<rparr>"

definition strict_idle :: "(dstate \<times> byte list) jpeg_decompress_struct \<Rightarrow> bool" where
  "strict_idle c = (fst (internal c) = DSTATE_START)"

definition strict_ready :: "(dstate \<times> byte list) globals" where
  "strict_ready = snd (jpeg_decode_init strict_codec (initial_globals (DSTATE_START, [])))"

text \<open>The same codec when it cannot convert the image's colour space to grayscale.\<close>

definition no_gray_codec :: "(dstate \<times> byte list) libjpeg" where
  "no_gray_codec = strict_codec\<lparr>jpeg_start_decompress := (\<lambda>c. Error_exit c)\<rparr>"

text \<open>
  The first codec on a host where creating the decompressor fails once and then works
  (memory that was short has become free).
\<close>

definition flaky_codec :: "byte list libjpeg" where
  "flaky_codec =
     toy_codec\<lparr>jpeg_create_decompress := (\<lambda>c.
        if internal c = [] then Error_exit (c\<lparr>internal := [0]\<rparr>)
        else Returns () (c\<lparr>internal := []\<rparr>))\<rparr>"

section \<open>Stores into the caller's memory\<close>

lemma store_Nil: "store m p [] = m"
  by (rule ext) (auto simp: store_def)

lemma store_outside: "i < p \<or> p + length bs \<le> i \<Longrightarrow> store m p bs i = m i"
  by (auto simp: store_def)

lemma store_inside: "i < length bs \<Longrightarrow> store m p bs (p + i) = bs ! i"
  by (simp add: store_def)

lemma store_append: "store (store m p xs) (p + length xs) ys = store m p (xs @ ys)"
  by (rule ext) (auto simp: store_def nth_append)


section \<open>Arithmetic of the size check\<close>

lemma sint_pos_uint: "0 \<le> sint (w :: 32 word) \<Longrightarrow> uint w = sint w"
proof -
  assume pos: "0 \<le> sint w"
  have "sint w < 2 ^ 32"
    using sint_lt [of w] by simp
  with pos have "take_bit 32 (sint w) = sint w"
    by (simp add: take_bit_int_eq_self)
  then show ?thesis
    using uint_sint [of w] by simp
qed

lemma required_exact:
  assumes "0 < w" "w \<le> MAX_CHUNK_DIM" "0 < h" "h \<le> MAX_CHUNK_DIM"
  shows "uint (required_bytes w h) = w * h"
proof -
  have "w * h \<le> 4096 * 4096"
    using assms by (intro mult_mono) (simp_all add: MAX_CHUNK_DIM_def)
  moreover have "0 \<le> w * h"
    using assms by simp
  ultimately have m: "(w * h) mod 2 ^ 32 = w * h"
    by simp
  have r: "required_bytes w h = word_of_int (w * h)"
    by (simp add: required_bytes_def)
  have "uint (word_of_int (w * h) :: 32 word) = (w * h) mod 2 ^ LENGTH(32)"
    by (rule uint_word_of_int)
  also have "\<dots> = w * h"
    using m by simp
  finally show ?thesis
    by (simp only: r)
qed

lemma required_sint:
  "required_bytes (sint W) (sint H) = W * H"
  by (simp add: required_bytes_def)

section \<open>The scanline loop\<close>

lemma read_rows_done:
  "\<not> output_scanline c < output_height c \<Longrightarrow> read_rows lib c p m = Some (Loop_done c p m)"
  by (subst read_rows.simps) simp

lemma read_rows_step:
  "output_scanline c < output_height c \<Longrightarrow> jpeg_read_scanlines lib c = Returns r (c', bs) \<Longrightarrow>
     read_rows lib c p m = read_rows lib c' (p + unat (output_width c')) (store m p bs)"
  by (subst read_rows.simps) simp

lemma read_rows_error:
  "output_scanline c < output_height c \<Longrightarrow> jpeg_read_scanlines lib c = Error_exit (c', bs) \<Longrightarrow>
     read_rows lib c p m = Some (Loop_error_exit c' (store m p bs))"
  by (subst read_rows.simps) simp

lemma read_rows_clean:
  "codec_rows lib c n = Some (rows, c') \<Longrightarrow>
     read_rows lib c p m =
       Some (Loop_done c' (p + n * unat (output_width c)) (store m p (concat rows))) \<and>
     length rows = n \<and> (\<forall>r \<in> set rows. length r = unat (output_width c))"
proof (induction n arbitrary: c p m rows)
  case 0
  then show ?case
    by (auto simp: read_rows_done store_Nil split: if_splits)
next
  case (Suc n)
  from Suc.prems have lt: "output_scanline c < output_height c"
    by (auto split: if_splits)
  from Suc.prems lt obtain r c1 bs rows1 where
    rd: "jpeg_read_scanlines lib c = Returns r (c1, bs)" and
    len: "length bs = unat (output_width c)" and
    w: "output_width c1 = output_width c" and
    rest: "codec_rows lib c1 n = Some (rows1, c')" and
    rows: "rows = bs # rows1"
    by (auto split: call.splits if_splits option.splits)
  from Suc.IH [OF rest, of "p + unat (output_width c)" "store m p bs"] w
  have ih: "read_rows lib c1 (p + unat (output_width c)) (store m p bs) =
              Some (Loop_done c' (p + unat (output_width c) + n * unat (output_width c))
                      (store (store m p bs) (p + unat (output_width c)) (concat rows1)))"
    and l1: "length rows1 = n" and l2: "\<forall>r \<in> set rows1. length r = unat (output_width c)"
    by simp_all
  have "read_rows lib c p m = read_rows lib c1 (p + unat (output_width c)) (store m p bs)"
    using read_rows_step [OF lt rd] w by simp
  with ih len rows l1 l2 show ?case
    using store_append [of m p bs "concat rows1"] by (simp add: add.assoc)
qed

lemma unat_succ_below: "(x :: 32 word) < y \<Longrightarrow> unat (x + 1) = Suc (unat x)"
  by unat_arith

lemma api_start:
  assumes "libjpeg_api lib" "jpeg_start_decompress lib c = Returns r c'"
  shows "output_width c' = image_width c \<and> output_height c' = image_height c \<and>
         output_scanline c' = 0"
proof -
  from assms(1) have "\<forall>c r c'. jpeg_start_decompress lib c = Returns r c' \<longrightarrow>
         output_width c' = image_width c \<and> output_height c' = image_height c \<and>
         output_scanline c' = 0"
    by (simp add: libjpeg_api_def)
  with assms(2) show ?thesis by blast
qed

lemma api_read:
  assumes "libjpeg_api lib" "output_scanline c < output_height c"
  shows "case jpeg_read_scanlines lib c of
            Returns r (c', bs) \<Rightarrow>
              length bs = unat (output_width c) \<and> output_width c' = output_width c \<and>
              output_height c' = output_height c \<and> output_scanline c' = output_scanline c + 1
          | Error_exit (c', bs) \<Rightarrow> length bs \<le> unat (output_width c)"
proof -
  from assms(1) have "\<forall>c. output_scanline c < output_height c \<longrightarrow>
         (case jpeg_read_scanlines lib c of
            Returns r (c', bs) \<Rightarrow>
              length bs = unat (output_width c) \<and> output_width c' = output_width c \<and>
              output_height c' = output_height c \<and> output_scanline c' = output_scanline c + 1
          | Error_exit (c', bs) \<Rightarrow> length bs \<le> unat (output_width c))"
    by (simp add: libjpeg_api_def)
  with assms(2) show ?thesis by blast
qed

lemma read_rows_api:
  assumes api: "libjpeg_api lib"
  shows "unat (output_height c) - unat (output_scanline c) = k \<Longrightarrow>
     \<exists>e. read_rows lib c p m = Some e \<and>
       (\<forall>i. i < p \<or> p + k * unat (output_width c) \<le> i \<longrightarrow>
          (case e of Loop_done c' p' m' \<Rightarrow> m' i | Loop_error_exit c' m' \<Rightarrow> m' i) = m i)"
proof (induction k arbitrary: c p m)
  case 0
  then have "\<not> output_scanline c < output_height c"
    by (simp add: word_less_nat_alt)
  then show ?case
    by (simp add: read_rows_done)
next
  case (Suc k)
  then have lt: "output_scanline c < output_height c"
    by (simp add: word_less_nat_alt)
  show ?case
  proof (cases "jpeg_read_scanlines lib c")
    case (Returns r cb)
    obtain c1 bs where cb: "cb = (c1, bs)" by (cases cb)
    from api_read [OF api lt] Returns cb have
      len: "length bs = unat (output_width c)" and w: "output_width c1 = output_width c" and
      h: "output_height c1 = output_height c" and sc: "output_scanline c1 = output_scanline c + 1"
      by simp_all
    have "unat (output_scanline c1) = Suc (unat (output_scanline c))"
      using sc unat_succ_below [OF lt] by simp
    with Suc.prems h have k: "unat (output_height c1) - unat (output_scanline c1) = k"
      by simp
    from Suc.IH [OF k, of "p + unat (output_width c)" "store m p bs"] w obtain e where
      e: "read_rows lib c1 (p + unat (output_width c)) (store m p bs) = Some e" and
      fr: "\<forall>i. i < p + unat (output_width c) \<or> p + unat (output_width c) + k * unat (output_width c) \<le> i \<longrightarrow>
          (case e of Loop_done c' p' m' \<Rightarrow> m' i | Loop_error_exit c' m' \<Rightarrow> m' i) = store m p bs i"
      by auto
    have "read_rows lib c p m = Some e"
      using read_rows_step [OF lt, of lib r c1 bs p m] Returns cb w e by simp
    moreover have "\<forall>i. i < p \<or> p + Suc k * unat (output_width c) \<le> i \<longrightarrow>
          (case e of Loop_done c' p' m' \<Rightarrow> m' i | Loop_error_exit c' m' \<Rightarrow> m' i) = m i"
    proof (intro allI impI)
      fix i assume i: "i < p \<or> p + Suc k * unat (output_width c) \<le> i"
      then have "(case e of Loop_done c' p' m' \<Rightarrow> m' i | Loop_error_exit c' m' \<Rightarrow> m' i) = store m p bs i"
        using fr by auto
      also have "store m p bs i = m i"
        using i len by (intro store_outside) auto
      finally show "(case e of Loop_done c' p' m' \<Rightarrow> m' i | Loop_error_exit c' m' \<Rightarrow> m' i) = m i" .
    qed
    ultimately show ?thesis by blast
  next
    case (Error_exit cb)
    obtain c1 bs where cb: "cb = (c1, bs)" by (cases cb)
    from api_read [OF api lt] Error_exit cb have len: "length bs \<le> unat (output_width c)"
      by simp
    have "read_rows lib c p m = Some (Loop_error_exit c1 (store m p bs))"
      using read_rows_error [OF lt, of lib c1 bs p m] Error_exit cb by simp
    moreover have "\<forall>i. i < p \<or> p + Suc k * unat (output_width c) \<le> i \<longrightarrow> store m p bs i = m i"
      using len by (auto intro!: store_outside)
    ultimately show ?thesis by simp
  qed
qed

section \<open>The return paths of the decode call\<close>

lemma decode_body_return:
  assumes "decode_body lib c src srcSize m dstSize ow oh = Some (Body_return st c' m' w h)"
  shows "(st = 0 \<or> st = - 2 \<or> st = - 3) \<and> (st \<noteq> 0 \<longrightarrow> m' = m \<and> w = ow \<and> h = oh)"
  using assms
  by (auto simp: decode_body_def Let_def split: call.splits if_splits option.splits loop_exit.splits)

lemma decode_gray_not_ready:
  "g_initialized s = 0 \<Longrightarrow>
     jpeg_decode_gray lib s src srcSize m dstSize ow oh =
       Some (Return \<lparr>status = - 1, globals = s, dst = m, outWidth = ow, outHeight = oh\<rparr>)"
  by (simp add: jpeg_decode_gray_def)

lemma decode_gray_returned:
  assumes "jpeg_decode_gray lib s src srcSize m dstSize ow oh = Some (Return r)"
  shows "(g_initialized s = 0 \<and> r = \<lparr>status = - 1, globals = s, dst = m, outWidth = ow, outHeight = oh\<rparr>)
       \<or> (g_initialized s \<noteq> 0 \<and> (\<exists>c. decode_body lib (g_cinfo s) src srcSize m dstSize ow oh
               = Some (Body_return (status r) c (dst r) (outWidth r) (outHeight r)) \<and> globals r = s\<lparr>g_cinfo := c\<rparr>))
       \<or> (g_initialized s \<noteq> 0 \<and> g_jerr_error_exit s = error_exit_handler \<and>
             (\<exists>c. decode_body lib (g_cinfo s) src srcSize m dstSize ow oh
                    = Some (Body_error_exit c (dst r)) \<and>
                  status r = - 4 \<and> globals r = s\<lparr>g_cinfo := jpeg_abort_decompress lib c\<rparr> \<and>
                  outWidth r = ow \<and> outHeight r = oh))"
  using assms
  by (auto simp: jpeg_decode_gray_def split: if_splits option.splits body_exit.splits error_exit_fn.splits)

section \<open>Decode on a handle that is not ready\<close>

lemma init_failed_not_ready:
  "fst (jpeg_decode_init lib s) \<noteq> 0 \<Longrightarrow> g_initialized (snd (jpeg_decode_init lib s)) = 0"
  by (auto simp: jpeg_decode_init_def Let_def split: if_splits call.splits)

lemma destroy_not_ready: "g_initialized (snd (jpeg_decode_destroy lib s)) = 0"
  by (simp add: jpeg_decode_destroy_def)

text \<open>
  C8. A decode call on a handle that is not ready returns -1 and changes nothing: the
  statics (with the decompressor) and every byte of the caller's memory are as before,
  whatever the library would do, and the out-parameter slots keep their values. The handle
  is not ready in the zero-initialised statics (before any initialize), after a
  \<open>jpeg_decode_init\<close> that did not return 0, and after \<open>jpeg_decode_destroy\<close>.
\<close>

theorem decode_not_ready:
  "(g_initialized s = 0 \<longrightarrow>
      jpeg_decode_gray lib s src srcSize m dstSize ow oh =
        Some (Return \<lparr>status = - 1, globals = s, dst = m, outWidth = ow, outHeight = oh\<rparr>)) \<and>
   jpeg_decode_gray lib (initial_globals c0) src srcSize m dstSize ow oh =
     Some (Return \<lparr>status = - 1, globals = initial_globals c0, dst = m,
                   outWidth = ow, outHeight = oh\<rparr>) \<and>
   (fst (jpeg_decode_init lib s) \<noteq> 0 \<longrightarrow>
      jpeg_decode_gray lib (snd (jpeg_decode_init lib s)) src srcSize m dstSize ow oh =
        Some (Return \<lparr>status = - 1, globals = snd (jpeg_decode_init lib s), dst = m,
                      outWidth = ow, outHeight = oh\<rparr>)) \<and>
   jpeg_decode_gray lib (snd (jpeg_decode_destroy lib s)) src srcSize m dstSize ow oh =
     Some (Return \<lparr>status = - 1, globals = snd (jpeg_decode_destroy lib s), dst = m,
                   outWidth = ow, outHeight = oh\<rparr>)"
proof -
  have "g_initialized (initial_globals c0) = 0"
    by (simp add: initial_globals_def)
  then show ?thesis
    using init_failed_not_ready [of lib s] destroy_not_ready [of lib s]
    by (simp add: decode_gray_not_ready)
qed

theorem decode_not_ready_witness:
  "g_initialized (initial_globals ([] :: byte list)) = 0 \<and>
   fst (jpeg_decode_init failing_codec (initial_globals [])) \<noteq> 0 \<and>
   map_option status
     (returned (jpeg_decode_gray failing_codec (initial_globals []) img2x2 10 zeros 4 7 7))
     = Some (- 1) \<and>
   map_option status (returned (jpeg_decode_gray failing_codec
       (snd (jpeg_decode_init failing_codec (initial_globals []))) img2x2 10 zeros 4 7 7))
     = Some (- 1) \<and>
   map_option status (returned (jpeg_decode_gray failing_codec
       (snd (jpeg_decode_destroy failing_codec (initial_globals []))) img2x2 10 zeros 4 7 7))
     = Some (- 1)"
proof -
  have a: "g_initialized (initial_globals ([] :: byte list)) = 0"
    by (simp add: initial_globals_def)
  have b: "fst (jpeg_decode_init failing_codec (initial_globals [])) \<noteq> 0"
    by (simp add: jpeg_decode_init_def failing_codec_def toy_codec_def initial_globals_def)
  show ?thesis
    using a b decode_not_ready [of "initial_globals []" failing_codec img2x2 10 zeros 4 7 7 "[]"]
    by (simp add: returned_def)
qed

section \<open>Decoding a well-formed stream\<close>

lemma small_dim:
  assumes "(W :: 32 word) \<le> 4096"
  shows "sint W = uint W" and "uint W \<le> 4096"
proof -
  from assms show le: "uint W \<le> 4096"
    by (simp add: word_le_def)
  have "- (2 ^ 31) \<le> uint W"
    by (rule order_trans [of _ 0]) simp_all
  moreover from le have "uint W < 2 ^ 31" by simp
  ultimately have "signed_take_bit 31 (uint W) = uint W"
    by (rule signed_take_bit_int_eq_self)
  then show "sint W = uint W"
    by (simp add: sint_uint)
qed

lemma pos_dim: "0 < (W :: 32 word) \<Longrightarrow> 0 < uint W"
  by (simp add: word_less_def)

lemma concat_uniform_length:
  "\<forall>r \<in> set rows. length r = w \<Longrightarrow> length (concat rows) = length rows * w"
  by (induction rows) simp_all

lemma concat_uniform_nth:
  "\<forall>r \<in> set rows. length r = w \<Longrightarrow> y < length rows \<Longrightarrow> x < w \<Longrightarrow>
     concat rows ! (y * w + x) = rows ! y ! x"
proof (induction rows arbitrary: y)
  case Nil
  then show ?case by simp
next
  case (Cons r rows)
  show ?case
  proof (cases y)
    case 0
    with Cons.prems show ?thesis by (simp add: nth_append)
  next
    case (Suc y')
    with Cons.prems have "concat rows ! (y' * w + x) = rows ! y' ! x"
      by (intro Cons.IH) simp_all
    moreover have "(r @ concat rows) ! (w + (y' * w + x)) = concat rows ! (y' * w + x)"
      using Cons.prems by (simp add: nth_append)
    ultimately show ?thesis
      using Suc by (simp add: add.assoc)
  qed
qed

lemma decode_body_clean:
  assumes img: "codec_image lib c src srcSize = Some (W, H, rows)"
    and dims: "0 < W" "W \<le> 4096" "0 < H" "H \<le> 4096"
    and cap: "unat W * unat H \<le> unat dstSize"
  shows "\<exists>c'. decode_body lib c src srcSize m dstSize ow oh =
                 Some (Body_return 0 c' (store m 0 (concat rows)) (uint W) (uint H))"
    and "length rows = unat H" and "\<forall>r \<in> set rows. length r = unat W"
proof -
  from img obtain u1 c1 where s1: "jpeg_mem_src lib c src srcSize = Returns u1 c1"
    by (auto simp: codec_image_def split: call.splits)
  from img s1 obtain rc c2 where s2: "jpeg_read_header lib c1 True = Returns rc c2"
    by (auto simp: codec_image_def split: call.splits)
  from img s1 s2 have rc: "rc = JPEG_HEADER_OK"
    by (auto simp: codec_image_def split: if_splits)
  from img s1 s2 rc obtain u3 c3 where
    s3: "jpeg_start_decompress lib (c2\<lparr>out_color_space := JCS_GRAYSCALE\<rparr>) = Returns u3 c3"
    by (auto simp: codec_image_def split: call.splits)
  from img s1 s2 rc s3 have ow3: "output_width c3 = image_width c2"
    and oh3: "output_height c3 = image_height c2"
    by (auto simp: codec_image_def split: if_splits)
  from img s1 s2 rc s3 ow3 oh3 obtain c4 where
    s4: "codec_rows lib c3 (unat (image_height c2)) = Some (rows, c4)"
    by (auto simp: codec_image_def split: option.splits call.splits)
  from img s1 s2 rc s3 ow3 oh3 s4 obtain u5 c5 where
    s5: "jpeg_finish_decompress lib c4 = Returns u5 c5"
    by (auto simp: codec_image_def split: call.splits)
  from img s1 s2 rc s3 ow3 oh3 s4 s5 have W: "image_width c2 = W" and H: "image_height c2 = H"
    by (simp_all add: codec_image_def)
  from read_rows_clean [OF s4, of 0 m] ow3 W H have
    loop: "read_rows lib c3 0 m = Some (Loop_done c4 (unat H * unat W) (store m 0 (concat rows)))"
    and len: "length rows = unat H" and uni: "\<forall>r \<in> set rows. length r = unat W"
    by simp_all
  have sw: "sint W = uint W" and sh: "sint H = uint H"
    using small_dim(1) dims by simp_all
  have "0 < uint W" and "0 < uint H"
    using dims by (simp_all add: pos_dim)
  then have gate1: "\<not> (sint W \<le> 0 \<or> sint H \<le> 0)"
    using sw sh by simp
  have gate2: "\<not> (sint W > MAX_CHUNK_DIM \<or> sint H > MAX_CHUNK_DIM)"
    using sw sh small_dim(2) dims by (simp add: MAX_CHUNK_DIM_def not_less)
  have "unat W * unat H < 2 ^ LENGTH(32)"
    using cap unsigned_less [of dstSize] by (rule le_less_trans)
  then have "unat (W * H) = unat W * unat H"
    by (simp only: unat_mult_lem)
  with cap have gate3: "\<not> required_bytes (sint W) (sint H) > dstSize"
    by (simp add: required_sint word_less_nat_alt)
  show "\<exists>c'. decode_body lib c src srcSize m dstSize ow oh =
                 Some (Body_return 0 c' (store m 0 (concat rows)) (uint W) (uint H))"
    using s1 s2 rc s3 loop s5 W H gate1 gate2 gate3 sw sh
    by (simp add: decode_body_def Let_def)
  show "length rows = unat H" by (rule len)
  show "\<forall>r \<in> set rows. length r = unat W" by (rule uni)
qed

lemma decode_gray_clean:
  assumes rdy: "g_initialized s \<noteq> 0"
    and img: "codec_image lib (g_cinfo s) src srcSize = Some (W, H, rows)"
    and dims: "0 < W" "W \<le> 4096" "0 < H" "H \<le> 4096"
    and cap: "unat W * unat H \<le> unat dstSize"
  shows "\<exists>r. jpeg_decode_gray lib s src srcSize m dstSize ow oh = Some (Return r) \<and>
           status r = 0 \<and> outWidth r = uint W \<and> outHeight r = uint H \<and>
           dst r = store m 0 (concat rows) \<and>
           g_initialized (globals r) = g_initialized s \<and>
           g_jerr_error_exit (globals r) = g_jerr_error_exit s"
proof -
  from decode_body_clean(1) [OF img dims cap, of m ow oh] obtain c' where
    "decode_body lib (g_cinfo s) src srcSize m dstSize ow oh =
       Some (Body_return 0 c' (store m 0 (concat rows)) (uint W) (uint H))"
    by blast
  with rdy show ?thesis
    by (simp add: jpeg_decode_gray_def)
qed

text \<open>
  A stream that the library takes as a well-formed image from the decompressor the handle
  holds: the call returns 0, the out-parameter slots hold \<open>W\<close> and \<open>H\<close>, the sample
  \<open>x\<close> of row \<open>y\<close> is at index \<open>y * W + x\<close> of the destination (row stride \<open>W\<close>, one
  byte per pixel), and every byte at an index from \<open>W * H\<close> on is as it was.
\<close>

lemma decode_clean_stream:
  assumes "g_initialized s \<noteq> 0"
    and "codec_image lib (g_cinfo s) src srcSize = Some (W, H, rows)"
    and "0 < W" "W \<le> 4096" "0 < H" "H \<le> 4096"
    and "unat W * unat H \<le> unat dstSize"
  shows "\<exists>r. jpeg_decode_gray lib s src srcSize m dstSize ow oh = Some (Return r) \<and>
           status r = 0 \<and> outWidth r = uint W \<and> outHeight r = uint H \<and>
           (\<forall>y < unat H. \<forall>x < unat W. dst r (y * unat W + x) = rows ! y ! x) \<and>
           (\<forall>i \<ge> unat W * unat H. dst r i = m i)"
proof -
  from decode_gray_clean [OF assms, of m ow oh] obtain r where
    r: "jpeg_decode_gray lib s src srcSize m dstSize ow oh = Some (Return r)"
       "status r = 0" "outWidth r = uint W" "outHeight r = uint H"
    and d: "dst r = store m 0 (concat rows)"
    by blast
  have len: "length rows = unat H" and uni: "\<forall>r \<in> set rows. length r = unat W"
    using decode_body_clean(2,3) [OF assms(2-7)] by simp_all
  have total: "length (concat rows) = unat H * unat W"
    using concat_uniform_length [OF uni] len by simp
  have px: "\<forall>y < unat H. \<forall>x < unat W. dst r (y * unat W + x) = rows ! y ! x"
  proof (intro allI impI)
    fix y x assume y: "y < unat H" and x: "x < unat W"
    from x have "y * unat W + x < Suc y * unat W"
      by simp
    also from y have "\<dots> \<le> unat H * unat W"
      by (intro mult_le_mono1) simp
    finally have "y * unat W + x < unat H * unat W" .
    then have "dst r (y * unat W + x) = concat rows ! (y * unat W + x)"
      using store_inside [of "y * unat W + x" "concat rows" m 0] d total by simp
    also have "\<dots> = rows ! y ! x"
      using concat_uniform_nth [OF uni] y x len by simp
    finally show "dst r (y * unat W + x) = rows ! y ! x" .
  qed
  have fr: "\<forall>i \<ge> unat W * unat H. dst r i = m i"
    using d total by (simp add: store_outside mult.commute)
  from r px fr show ?thesis by blast
qed

section \<open>The handle across calls\<close>

lemma decode_keeps_handle:
  assumes "jpeg_decode_gray lib s src srcSize m dstSize ow oh = Some (Return r)"
  shows "g_initialized (globals r) = g_initialized s"
    and "g_jerr_error_exit (globals r) = g_jerr_error_exit s"
  using decode_gray_returned [OF assms] by auto

lemma decode_ready_status:
  assumes "g_initialized s \<noteq> 0"
    and "jpeg_decode_gray lib s src srcSize m dstSize ow oh = Some (Return r)"
  shows "status r = 0 \<or> status r = - 2 \<or> status r = - 3 \<or> status r = - 4"
  using decode_gray_returned [OF assms(2)] assms(1) decode_body_return by fastforce

lemma init_wired: "wired s \<Longrightarrow> wired (snd (jpeg_decode_init lib s))"
  by (auto simp: wired_def jpeg_decode_init_def Let_def split: call.splits)

lemma destroy_wired: "wired (snd (jpeg_decode_destroy lib s))"
  by (simp add: wired_def jpeg_decode_destroy_def)

lemma reachable_wired: "reachable lib s \<Longrightarrow> wired s"
proof (induction rule: reachable.induct)
  case (at_start c0)
  show ?case by (simp add: wired_def initial_globals_def)
next
  case (after_init s)
  then show ?case by (simp add: init_wired)
next
  case (after_decode s src srcSize m dstSize ow oh r)
  then show ?case
    using decode_keeps_handle [of lib s src srcSize m dstSize ow oh r]
    by (simp add: wired_def)
next
  case (after_destroy s)
  show ?case by (rule destroy_wired)
qed

lemma reachable_ready: "reachable lib s \<Longrightarrow> g_initialized s \<noteq> 0 \<Longrightarrow> ready s"
  using reachable_wired [of lib s] by (simp add: wired_def ready_def)

lemma init_ready: "fst (jpeg_decode_init lib s) = 0 \<Longrightarrow> wired s \<Longrightarrow> ready (snd (jpeg_decode_init lib s))"
  by (auto simp: wired_def ready_def jpeg_decode_init_def Let_def split: call.splits if_splits)

section \<open>Faults of the codec\<close>

text \<open>
  The five places where the library can call \<open>error_exit\<close> under the recovery point of
  line 62: attaching the input, parsing the header, starting the decompression, reading a
  scanline, and finishing. Each one leaves the body of the call by \<open>Body_error_exit\<close>.
\<close>

lemma error_exit_attach:
  "jpeg_mem_src lib c src srcSize = Error_exit c' \<Longrightarrow>
     decode_body lib c src srcSize m dstSize ow oh = Some (Body_error_exit c' m)"
  by (simp add: decode_body_def)

lemma error_exit_header:
  "jpeg_mem_src lib c src srcSize = Returns u c1 \<Longrightarrow> jpeg_read_header lib c1 True = Error_exit c' \<Longrightarrow>
     decode_body lib c src srcSize m dstSize ow oh = Some (Body_error_exit c' m)"
  by (simp add: decode_body_def)

lemma error_exit_later:
  assumes "parsed_header lib c src srcSize = Some (JPEG_HEADER_OK, c2)"
    and "0 < sint (image_width c2)" "sint (image_width c2) \<le> MAX_CHUNK_DIM"
    and "0 < sint (image_height c2)" "sint (image_height c2) \<le> MAX_CHUNK_DIM"
    and "required_bytes (sint (image_width c2)) (sint (image_height c2)) \<le> dstSize"
  shows "jpeg_start_decompress lib (c2\<lparr>out_color_space := JCS_GRAYSCALE\<rparr>) = Error_exit c' \<Longrightarrow>
           decode_body lib c src srcSize m dstSize ow oh = Some (Body_error_exit c' m)"
    and "jpeg_start_decompress lib (c2\<lparr>out_color_space := JCS_GRAYSCALE\<rparr>) = Returns u c3 \<Longrightarrow>
           read_rows lib c3 0 m = Some (Loop_error_exit c' m') \<Longrightarrow>
           decode_body lib c src srcSize m dstSize ow oh = Some (Body_error_exit c' m')"
    and "jpeg_start_decompress lib (c2\<lparr>out_color_space := JCS_GRAYSCALE\<rparr>) = Returns u c3 \<Longrightarrow>
           read_rows lib c3 0 m = Some (Loop_done c4 p m') \<Longrightarrow>
           jpeg_finish_decompress lib c4 = Error_exit c' \<Longrightarrow>
           decode_body lib c src srcSize m dstSize ow oh = Some (Body_error_exit c' m')"
  using assms
  by (auto simp: decode_body_def parsed_header_def Let_def not_le not_less split: call.splits)

text \<open>
  Were \<open>error_exit_handler\<close> not installed, the same \<open>error_exit\<close> would end the
  process; the handle produced by the first \<open>jpeg_decode_init\<close> is reachable and ready.
\<close>

lemma error_exit_unhandled:
  assumes "g_initialized s \<noteq> 0" and "g_jerr_error_exit s \<noteq> error_exit_handler"
    and "decode_body lib (g_cinfo s) src srcSize m dstSize ow oh = Some (Body_error_exit c m')"
  shows "jpeg_decode_gray lib s src srcSize m dstSize ow oh = Some Process_terminated"
  using assms by (cases "g_jerr_error_exit s") (simp_all add: jpeg_decode_gray_def)

lemma toy_ready_reachable: "reachable toy_codec toy_ready"
  unfolding toy_ready_def by (rule after_init) (rule at_start)

lemma codec_rows_numeral:
  "codec_rows lib c (numeral k) = codec_rows lib c (Suc (pred_numeral k))"
  by (simp add: numeral_eq_Suc)

lemma toy_image_2x2:
  "codec_image toy_codec c img2x2 10 = Some (2, 2, [[10, 20], [30, 40]])"
  by (simp add: codec_image_def toy_codec_def toy_read_header_def toy_read_scanlines_def
        img2x2_def JPEG_HEADER_OK_def JPEG_SUSPENDED_def Let_def codec_rows_numeral)

lemma toy_ready_ready: "ready toy_ready"
  by (simp add: ready_def toy_ready_def jpeg_decode_init_def toy_codec_def initial_globals_def)

section \<open>Every call under the library's interface contract\<close>

lemma gate_size:
  assumes g1: "\<not> (sint W \<le> 0 \<or> sint H \<le> 0)"
    and g2: "\<not> (sint W > MAX_CHUNK_DIM \<or> sint H > MAX_CHUNK_DIM)"
    and g3: "\<not> required_bytes (sint W) (sint H) > dstSize"
  shows "unat (H :: 32 word) * unat (W :: 32 word) \<le> unat dstSize"
proof -
  from g1 have "0 \<le> sint W" and "0 \<le> sint H"
    by simp_all
  then have w: "uint W = sint W" and h: "uint H = sint H"
    by (simp_all add: sint_pos_uint)
  have "uint (required_bytes (sint W) (sint H)) = sint W * sint H"
    using g1 g2 by (intro required_exact) simp_all
  moreover from g3 have "required_bytes (sint W) (sint H) \<le> dstSize"
    by (simp only: not_less)
  then have "uint (required_bytes (sint W) (sint H)) \<le> uint dstSize"
    by (simp only: word_le_def)
  ultimately have "uint W * uint H \<le> uint dstSize"
    using w h by simp
  then have "int (unat W * unat H) \<le> int (unat dstSize)"
    by simp
  then show ?thesis
    by (simp only: of_nat_le_iff mult.commute)
qed

lemma decode_body_api:
  assumes api: "libjpeg_api lib"
  shows "\<exists>e. decode_body lib c src srcSize m dstSize ow oh = Some e \<and>
           (\<forall>i \<ge> unat dstSize. exit_mem e i = m i)"
proof (cases "jpeg_mem_src lib c src srcSize")
  case (Error_exit c')
  then show ?thesis by (simp add: decode_body_def exit_mem_def)
next
  case s1: (Returns u1 c1)
  show ?thesis
  proof (cases "jpeg_read_header lib c1 True")
    case (Error_exit c')
    with s1 show ?thesis by (simp add: decode_body_def exit_mem_def)
  next
    case s2: (Returns rc c2)
    let ?W = "image_width c2" and ?H = "image_height c2"
    show ?thesis
    proof (cases "rc = JPEG_HEADER_OK \<and> \<not> (sint ?W \<le> 0 \<or> sint ?H \<le> 0) \<and>
                  \<not> (sint ?W > MAX_CHUNK_DIM \<or> sint ?H > MAX_CHUNK_DIM) \<and>
                  \<not> required_bytes (sint ?W) (sint ?H) > dstSize")
      case False
      with s1 s2 show ?thesis
        by (auto simp: decode_body_def exit_mem_def Let_def)
    next
      case gates: True
      then have size: "unat ?H * unat ?W \<le> unat dstSize"
        using gate_size by blast
      show ?thesis
      proof (cases "jpeg_start_decompress lib (c2\<lparr>out_color_space := JCS_GRAYSCALE\<rparr>)")
        case (Error_exit c')
        with s1 s2 gates show ?thesis
          by (simp add: decode_body_def exit_mem_def Let_def)
      next
        case s3: (Returns u3 c3)
        from api_start [OF api s3] have
          c3: "output_width c3 = ?W" "output_height c3 = ?H" "output_scanline c3 = 0"
          by simp_all
        then have "unat (output_height c3) - unat (output_scanline c3) = unat ?H"
          by simp
        from read_rows_api [OF api this, of 0 m] c3 obtain e where
          loop: "read_rows lib c3 0 m = Some e" and
          fr: "\<forall>i. unat ?H * unat ?W \<le> i \<longrightarrow>
                 (case e of Loop_done c' p' m' \<Rightarrow> m' i | Loop_error_exit c' m' \<Rightarrow> m' i) = m i"
          by auto
        show ?thesis
        proof (cases e)
          case (Loop_error_exit c' m')
          with s1 s2 gates s3 loop fr size show ?thesis
            by (simp add: decode_body_def exit_mem_def Let_def)
        next
          case (Loop_done c4 p m')
          with s1 s2 gates s3 loop fr size show ?thesis
            by (cases "jpeg_finish_decompress lib c4")
               (simp_all add: decode_body_def exit_mem_def Let_def)
        qed
      qed
    qed
  qed
qed



section \<open>The capacity gate\<close>

lemma decode_gray_total:
  assumes api: "libjpeg_api lib" and w: "wired s"
  shows "\<exists>r. jpeg_decode_gray lib s src srcSize m dstSize ow oh = Some (Return r) \<and>
           (\<forall>i \<ge> unat dstSize. dst r i = m i)"
proof (cases "g_initialized s = 0")
  case True
  then show ?thesis by (simp add: decode_gray_not_ready)
next
  case False
  with w have h: "g_jerr_error_exit s = error_exit_handler"
    by (simp add: wired_def)
  from decode_body_api [OF api, of "g_cinfo s" src srcSize m dstSize ow oh] obtain e where
    e: "decode_body lib (g_cinfo s) src srcSize m dstSize ow oh = Some e" and
    fr: "\<forall>i \<ge> unat dstSize. exit_mem e i = m i"
    by blast
  with False h show ?thesis
    by (cases e) (simp_all add: jpeg_decode_gray_def exit_mem_def)
qed

lemma toy_api: "libjpeg_api toy_codec"
  by (auto simp: libjpeg_api_def toy_codec_def toy_read_scanlines_def Let_def)

lemma toy_ready_wired: "wired toy_ready"
  using toy_ready_ready by (simp add: wired_def ready_def)

lemma buffer_too_small:
  assumes rdy: "g_initialized s \<noteq> 0"
    and hdr: "parsed_header lib (g_cinfo s) src srcSize = Some (JPEG_HEADER_OK, c2)"
    and dims: "0 < sint (image_width c2)" "sint (image_width c2) \<le> MAX_CHUNK_DIM"
              "0 < sint (image_height c2)" "sint (image_height c2) \<le> MAX_CHUNK_DIM"
    and small: "uint dstSize < sint (image_width c2) * sint (image_height c2)"
  shows "jpeg_decode_gray lib s src srcSize m dstSize ow oh =
           Some (Return \<lparr>status = - 3, globals = s\<lparr>g_cinfo := c2\<rparr>, dst = m,
                         outWidth = ow, outHeight = oh\<rparr>)"
proof -
  have "uint (required_bytes (sint (image_width c2)) (sint (image_height c2)))
          = sint (image_width c2) * sint (image_height c2)"
    using dims by (rule required_exact)
  with small have "dstSize < required_bytes (sint (image_width c2)) (sint (image_height c2))"
    by (simp add: word_less_def)
  with rdy hdr dims show ?thesis
    by (auto simp: jpeg_decode_gray_def decode_body_def parsed_header_def Let_def
          split: call.splits)
qed

text \<open>
  C6. Past the header and dimension gates, \<open>required\<close> is the exact product
  \<open>width * height\<close>: the multiplication in \<open>size_t\<close> does not wrap, because both
  factors are at most 4096. If the product exceeds the declared capacity the call returns
  -3 with the destination unmodified and the decompressor as the header parse left it (no
  decompression was started). And in no call is a byte at an index \<open>\<ge> dstSize\<close>
  modified, for a library that keeps its interface contract (\<open>libjpeg_api\<close>), the
  handle being in a state the operations can produce (\<open>wired\<close>).
\<close>

theorem capacity_gate:
  "(0 < w \<and> w \<le> MAX_CHUNK_DIM \<and> 0 < h \<and> h \<le> MAX_CHUNK_DIM \<longrightarrow>
      uint (required_bytes w h) = w * h) \<and>
   (g_initialized s \<noteq> 0 \<and>
    parsed_header lib (g_cinfo s) src srcSize = Some (JPEG_HEADER_OK, c2) \<and>
    0 < sint (image_width c2) \<and> sint (image_width c2) \<le> MAX_CHUNK_DIM \<and>
    0 < sint (image_height c2) \<and> sint (image_height c2) \<le> MAX_CHUNK_DIM \<and>
    uint dstSize < sint (image_width c2) * sint (image_height c2) \<longrightarrow>
      jpeg_decode_gray lib s src srcSize m dstSize ow oh =
        Some (Return \<lparr>status = status_code BufferTooSmall, globals = s\<lparr>g_cinfo := c2\<rparr>,
                      dst = m, outWidth = ow, outHeight = oh\<rparr>)) \<and>
   (libjpeg_api lib \<and> wired s \<longrightarrow>
      (\<exists>r. jpeg_decode_gray lib s src srcSize m dstSize ow oh = Some (Return r) \<and>
           (\<forall>i \<ge> unat dstSize. dst r i = m i)))"
  using required_exact [of w h] buffer_too_small [of s lib src srcSize c2 dstSize m ow oh]
    decode_gray_total [of lib s src srcSize m dstSize ow oh]
  by simp

theorem capacity_gate_witness:
  "uint (required_bytes 2 2) = 2 * 2 \<and>
   g_initialized toy_ready \<noteq> 0 \<and>
   parsed_header toy_codec (g_cinfo toy_ready) img2x2 10 =
     Some (JPEG_HEADER_OK, (g_cinfo toy_ready)\<lparr>image_width := 2, image_height := 2,
                                                  internal := img2x2\<rparr>) \<and>
   uint (3 :: 32 word) < 2 * 2 \<and>
   libjpeg_api toy_codec \<and> wired toy_ready \<and>
   status_of (jpeg_decode_gray toy_codec toy_ready img2x2 10 zeros 3 7 7) = Some (- 3) \<and>
   dst_at (jpeg_decode_gray toy_codec toy_ready img2x2 10 zeros 3 7 7) 0 = Some (zeros 0) \<and>
   dst_at (jpeg_decode_gray toy_codec toy_ready img2x2 10 zeros 3 7 7) 3 = Some (zeros 3) \<and>
   dst_at (jpeg_decode_gray toy_codec toy_ready img2x2_cut 9 zeros 4 7 7) 4 = Some (zeros 4)"
proof -
  let ?c2 = "(g_cinfo toy_ready)\<lparr>image_width := 2, image_height := 2, internal := img2x2\<rparr>"
  have rdy: "g_initialized toy_ready \<noteq> 0"
    using toy_ready_ready by (simp add: ready_def)
  have hdr: "parsed_header toy_codec (g_cinfo toy_ready) img2x2 10 = Some (JPEG_HEADER_OK, ?c2)"
    by (simp add: parsed_header_def toy_codec_def toy_read_header_def img2x2_def Let_def
          JPEG_HEADER_OK_def)
  have small: "uint (3 :: 32 word) < 2 * 2"
    by simp
  have a: "uint (required_bytes 2 2) = 2 * 2"
    using capacity_gate [of 2 2 toy_ready toy_codec img2x2 10 ?c2 3 zeros 7 7]
    by (simp add: MAX_CHUNK_DIM_def)
  have b: "jpeg_decode_gray toy_codec toy_ready img2x2 10 zeros 3 7 7 =
        Some (Return \<lparr>status = status_code BufferTooSmall, globals = toy_ready\<lparr>g_cinfo := ?c2\<rparr>,
                      dst = zeros, outWidth = 7, outHeight = 7\<rparr>)"
    using capacity_gate [of 2 2 toy_ready toy_codec img2x2 10 ?c2 3 zeros 7 7] rdy hdr
    by (simp add: MAX_CHUNK_DIM_def)
  obtain r where r: "jpeg_decode_gray toy_codec toy_ready img2x2_cut 9 zeros 4 7 7 = Some (Return r)"
    and fr: "\<forall>i \<ge> unat (4 :: 32 word). dst r i = zeros i"
    using capacity_gate [of 2 2 toy_ready toy_codec img2x2_cut 9 ?c2 4 zeros 7 7]
      toy_api toy_ready_wired
    by auto
  have c: "dst_at (jpeg_decode_gray toy_codec toy_ready img2x2_cut 9 zeros 4 7 7) 4 = Some (zeros 4)"
    using r fr [rule_format, of 4] by (simp add: dst_at_def returned_def)
  show ?thesis
    using a rdy hdr small toy_api toy_ready_wired b c
    by (simp add: status_of_def dst_at_def returned_def)
qed

section \<open>What a failed call leaves in the destination\<close>





section \<open>Status codes and outcomes\<close>

lemma required_gate:
  assumes "0 < w" "w \<le> MAX_CHUNK_DIM" "0 < h" "h \<le> MAX_CHUNK_DIM"
  shows "(dstSize < required_bytes w h) = (uint dstSize < w * h)"
  using required_exact [OF assms] by (simp add: word_less_def)

lemma body_refines:
  "case decode_body lib (g_cinfo s) src srcSize m dstSize ow oh of
     None \<Rightarrow> g_initialized s \<noteq> 0 \<longrightarrow> spec_decode_outcome lib s src srcSize m dstSize = None
   | Some (Body_error_exit c m') \<Rightarrow>
       g_initialized s \<noteq> 0 \<longrightarrow> spec_decode_outcome lib s src srcSize m dstSize = Some CodecFault
   | Some (Body_return st c m' w h) \<Rightarrow>
       g_initialized s \<noteq> 0 \<longrightarrow>
       (\<exists>out. spec_decode_outcome lib s src srcSize m dstSize = Some out \<and> st = status_code out \<and>
          (st = 0 \<longrightarrow> out = Success w h))"
proof (cases "jpeg_mem_src lib (g_cinfo s) src srcSize")
  case (Error_exit c')
  then show ?thesis by (simp add: decode_body_def spec_decode_outcome_def)
next
  case s1: (Returns u1 c1)
  show ?thesis
  proof (cases "jpeg_read_header lib c1 True")
    case (Error_exit c')
    with s1 show ?thesis by (simp add: decode_body_def spec_decode_outcome_def)
  next
    case s2: (Returns rc c2)
    let ?W = "sint (image_width c2)" and ?H = "sint (image_height c2)"
    show ?thesis
    proof (cases "rc = JPEG_HEADER_OK \<and> 0 < ?W \<and> 0 < ?H \<and> ?W \<le> 4096 \<and> ?H \<le> 4096")
      case False
      with s1 s2 show ?thesis
        by (auto simp: decode_body_def spec_decode_outcome_def Let_def MAX_CHUNK_DIM_def)
    next
      case gates: True
      then have g: "0 < ?W" "?W \<le> MAX_CHUNK_DIM" "0 < ?H" "?H \<le> MAX_CHUNK_DIM"
        by (simp_all add: MAX_CHUNK_DIM_def)
      note rg = required_gate [OF g, of dstSize]
      show ?thesis
      proof (cases "uint dstSize < ?W * ?H")
        case True
        with rg have "dstSize < required_bytes ?W ?H" by simp
        with s1 s2 gates g True show ?thesis
          by (simp add: decode_body_def spec_decode_outcome_def Let_def)
      next
        case False
        with rg have nlt: "\<not> dstSize < required_bytes ?W ?H" by simp
        show ?thesis
        proof (cases "jpeg_start_decompress lib (c2\<lparr>out_color_space := JCS_GRAYSCALE\<rparr>)")
          case (Error_exit c')
          with s1 s2 gates g nlt False show ?thesis
            by (simp add: decode_body_def spec_decode_outcome_def Let_def)
        next
          case s3: (Returns u3 c3)
          show ?thesis
          proof (cases "read_rows lib c3 0 m")
            case None
            with s1 s2 gates g nlt False s3 show ?thesis
              by (simp add: decode_body_def spec_decode_outcome_def Let_def)
          next
            case (Some e)
            show ?thesis
            proof (cases e)
              case (Loop_error_exit c' m')
              with s1 s2 gates g nlt False s3 Some show ?thesis
                by (simp add: decode_body_def spec_decode_outcome_def Let_def)
            next
              case (Loop_done c4 p m')
              with s1 s2 gates g nlt False s3 Some show ?thesis
                by (cases "jpeg_finish_decompress lib c4")
                   (simp_all add: decode_body_def spec_decode_outcome_def Let_def)
            qed
          qed
        qed
      qed
    qed
  qed
qed

lemma status_refines:
  assumes "jpeg_decode_gray lib s src srcSize m dstSize ow oh = Some (Return r)"
  shows "\<exists>out. spec_decode_outcome lib s src srcSize m dstSize = Some out \<and>
           status r = status_code out \<and>
           (status r = 0 \<longrightarrow> out = Success (outWidth r) (outHeight r))"
proof -
  from decode_gray_returned [OF assms] consider
    (nr) "g_initialized s = 0" "status r = - 1"
  | (ret) c where "g_initialized s \<noteq> 0"
         "decode_body lib (g_cinfo s) src srcSize m dstSize ow oh =
            Some (Body_return (status r) c (dst r) (outWidth r) (outHeight r))"
  | (err) c where "g_initialized s \<noteq> 0"
         "decode_body lib (g_cinfo s) src srcSize m dstSize ow oh = Some (Body_error_exit c (dst r))"
         "status r = - 4"
    by auto
  then show ?thesis
  proof cases
    case nr
    then show ?thesis by (simp add: spec_decode_outcome_def)
  next
    case ret
    with body_refines [where lib = lib and s = s and src = src and srcSize = srcSize and m = m
        and dstSize = dstSize and ow = ow and oh = oh]
    show ?thesis by simp
  next
    case err
    with body_refines [where lib = lib and s = s and src = src and srcSize = srcSize and m = m
        and dstSize = dstSize and ow = ow and oh = oh]
    show ?thesis by simp
  qed
qed

text \<open>
  C4, as the claim states it, fails: a header that does not parse (\<open>HeaderInvalid\<close>)
  and a header with a dimension out of range (\<open>DimensionOutOfRange\<close>) both return -2, so
  the status code does not tell these two outcomes apart. Here the header cut to four
  bytes and the header claiming 5000 by 2.
\<close>

theorem shared_status_counterexample:
  "spec_decode_outcome toy_codec toy_ready cut_header 4 zeros 4 = Some HeaderInvalid \<and>
   spec_decode_outcome toy_codec toy_ready wide_header 6 zeros 4 = Some DimensionOutOfRange \<and>
   status_of (jpeg_decode_gray toy_codec toy_ready cut_header 4 zeros 4 7 7) = Some (- 2) \<and>
   status_of (jpeg_decode_gray toy_codec toy_ready wide_header 6 zeros 4 7 7) = Some (- 2)"
  by (simp add: spec_decode_outcome_def status_of_def returned_def jpeg_decode_gray_def
        decode_body_def toy_ready_def jpeg_decode_init_def initial_globals_def toy_codec_def
        toy_read_header_def cut_header_def wide_header_def MAX_CHUNK_DIM_def
        JPEG_HEADER_OK_def JPEG_SUSPENDED_def Let_def)

text \<open>
  C4 as amended. With a library that keeps its interface contract and a handle in a state
  the operations can produce, every decode call returns to the host with one status, the
  code of the call's outcome in the specification's table: 0 exactly for \<open>Success\<close> (with
  the width and height of the out-parameter slots), -1 exactly for \<open>NotReady\<close>, -3 exactly
  for \<open>BufferTooSmall\<close>, -4 exactly for \<open>CodecFault\<close>, and -2 for both
  \<open>HeaderInvalid\<close> and \<open>DimensionOutOfRange\<close>.
\<close>

theorem one_status_per_call:
  assumes "libjpeg_api lib" and "wired s"
  shows "\<exists>r out. jpeg_decode_gray lib s src srcSize m dstSize ow oh = Some (Return r) \<and>
           spec_decode_outcome lib s src srcSize m dstSize = Some out \<and>
           status r = status_code out \<and>
           (status r = 0 \<longleftrightarrow> out = Success (outWidth r) (outHeight r)) \<and>
           (status r = - 1 \<longleftrightarrow> out = NotReady) \<and>
           (status r = - 2 \<longleftrightarrow> out = HeaderInvalid \<or> out = DimensionOutOfRange) \<and>
           (status r = - 3 \<longleftrightarrow> out = BufferTooSmall) \<and>
           (status r = - 4 \<longleftrightarrow> out = CodecFault)"
proof -
  from decode_gray_total [OF assms, of src srcSize m dstSize ow oh] obtain r where
    r: "jpeg_decode_gray lib s src srcSize m dstSize ow oh = Some (Return r)"
    by blast
  from status_refines [OF r] obtain out where
    out: "spec_decode_outcome lib s src srcSize m dstSize = Some out"
         "status r = status_code out"
         "status r = 0 \<longrightarrow> out = Success (outWidth r) (outHeight r)"
    by blast
  have "(status r = 0 \<longleftrightarrow> out = Success (outWidth r) (outHeight r)) \<and>
        (status r = - 1 \<longleftrightarrow> out = NotReady) \<and>
        (status r = - 2 \<longleftrightarrow> out = HeaderInvalid \<or> out = DimensionOutOfRange) \<and>
        (status r = - 3 \<longleftrightarrow> out = BufferTooSmall) \<and>
        (status r = - 4 \<longleftrightarrow> out = CodecFault)"
    using out(2,3) by (cases out) auto
  with r out show ?thesis by blast
qed

theorem one_status_per_call_witness:
  "libjpeg_api toy_codec \<and> wired toy_ready \<and>
   status_of (jpeg_decode_gray toy_codec toy_ready img2x2 10 zeros 3 7 7) = Some (- 3) \<and>
   spec_decode_outcome toy_codec toy_ready img2x2 10 zeros 3 = Some BufferTooSmall"
proof -
  from one_status_per_call [OF toy_api toy_ready_wired, of img2x2 10 zeros 3 7 7] obtain r out where
    r: "jpeg_decode_gray toy_codec toy_ready img2x2 10 zeros 3 7 7 = Some (Return r)" and
    out: "spec_decode_outcome toy_codec toy_ready img2x2 10 zeros 3 = Some out" and
    st: "status r = status_code out" and
    iff: "status r = - 3 \<longleftrightarrow> out = BufferTooSmall"
    by blast
  have "spec_decode_outcome toy_codec toy_ready img2x2 10 zeros 3 = Some BufferTooSmall"
    by (simp add: spec_decode_outcome_def toy_ready_def jpeg_decode_init_def initial_globals_def
          toy_codec_def toy_read_header_def img2x2_def JPEG_HEADER_OK_def JPEG_SUSPENDED_def
          Let_def)
  with out have "out = BufferTooSmall" by simp
  with r out st toy_api toy_ready_wired show ?thesis
    by (simp add: status_of_def returned_def)
qed

section \<open>The header and dimension gates, and the out-parameter slots\<close>

lemma body_success_header:
  assumes "decode_body lib c src srcSize m dstSize ow oh = Some (Body_return 0 c' m' w h)"
  shows "\<exists>c2. parsed_header lib c src srcSize = Some (JPEG_HEADER_OK, c2) \<and>
           w = sint (image_width c2) \<and> h = sint (image_height c2) \<and>
           0 < w \<and> w \<le> MAX_CHUNK_DIM \<and> 0 < h \<and> h \<le> MAX_CHUNK_DIM"
  using assms
  by (auto simp: decode_body_def parsed_header_def Let_def not_le
        split: call.splits if_splits option.splits loop_exit.splits)

lemma header_gate:
  assumes "g_initialized s \<noteq> 0"
    and "parsed_header lib (g_cinfo s) src srcSize = Some (rc, c2)"
    and "rc \<noteq> JPEG_HEADER_OK \<or>
         sint (image_width c2) \<le> 0 \<or> sint (image_height c2) \<le> 0 \<or>
         sint (image_width c2) > 4096 \<or> sint (image_height c2) > 4096"
  shows "jpeg_decode_gray lib s src srcSize m dstSize ow oh =
           Some (Return \<lparr>status = - 2, globals = s\<lparr>g_cinfo := c2\<rparr>, dst = m,
                         outWidth = ow, outHeight = oh\<rparr>)"
  using assms
  by (auto simp: jpeg_decode_gray_def decode_body_def parsed_header_def Let_def MAX_CHUNK_DIM_def
        split: call.splits)

text \<open>
  C7. When the header parses (\<open>jpeg_read_header\<close> returns \<open>JPEG_HEADER_OK\<close>) and the
  width or the height, read as \<open>int\<close>, is not positive or is above 4096, the call
  returns -2, the code of \<open>DimensionOutOfRange\<close>. Nothing was decoded or written: the
  decompressor is the one the header parse left (no decompression was started), and the
  destination and the out-parameter slots are as before.
\<close>

theorem dimension_gate:
  assumes "g_initialized s \<noteq> 0"
    and "parsed_header lib (g_cinfo s) src srcSize = Some (JPEG_HEADER_OK, c2)"
    and "sint (image_width c2) \<le> 0 \<or> sint (image_height c2) \<le> 0 \<or>
         sint (image_width c2) > 4096 \<or> sint (image_height c2) > 4096"
  shows "jpeg_decode_gray lib s src srcSize m dstSize ow oh =
           Some (Return \<lparr>status = status_code DimensionOutOfRange, globals = s\<lparr>g_cinfo := c2\<rparr>,
                         dst = m, outWidth = ow, outHeight = oh\<rparr>) \<and>
         spec_decode_outcome lib s src srcSize m dstSize = Some DimensionOutOfRange"
proof -
  have "spec_decode_outcome lib s src srcSize m dstSize = Some DimensionOutOfRange"
    using assms
    by (auto simp: spec_decode_outcome_def parsed_header_def Let_def split: call.splits)
  then show ?thesis
    using header_gate [OF assms(1,2), of m dstSize ow oh] assms(3) by simp
qed

theorem dimension_gate_witness:
  "g_initialized toy_ready \<noteq> 0 \<and>
   parsed_header toy_codec (g_cinfo toy_ready) wide_header 6 =
     Some (JPEG_HEADER_OK, (g_cinfo toy_ready)\<lparr>image_width := 5000, image_height := 2,
                                                  internal := wide_header\<rparr>) \<and>
   sint (5000 :: 32 word) > 4096 \<and>
   jpeg_decode_gray toy_codec toy_ready wide_header 6 zeros 4 7 7 =
     Some (Return \<lparr>status = - 2,
                   globals = toy_ready\<lparr>g_cinfo := (g_cinfo toy_ready)\<lparr>image_width := 5000,
                                image_height := 2, internal := wide_header\<rparr>\<rparr>,
                   dst = zeros, outWidth = 7, outHeight = 7\<rparr>) \<and>
   spec_decode_outcome toy_codec toy_ready wide_header 6 zeros 4 = Some DimensionOutOfRange"
proof -
  let ?c2 = "(g_cinfo toy_ready)\<lparr>image_width := 5000, image_height := 2,
                                 internal := wide_header\<rparr>"
  have rdy: "g_initialized toy_ready \<noteq> 0"
    using toy_ready_ready by (simp add: ready_def)
  have hdr: "parsed_header toy_codec (g_cinfo toy_ready) wide_header 6 = Some (JPEG_HEADER_OK, ?c2)"
    by (simp add: parsed_header_def toy_codec_def toy_read_header_def wide_header_def Let_def
          JPEG_HEADER_OK_def)
  have big: "sint (5000 :: 32 word) > 4096"
    by simp
  show ?thesis
    using dimension_gate [OF rdy hdr, of zeros 4 7 7] rdy hdr big by simp
qed

lemma out_params_cases:
  assumes "jpeg_decode_gray lib s src srcSize m dstSize ow oh = Some (Return r)"
  shows "(status r \<noteq> 0 \<longrightarrow> outWidth r = ow \<and> outHeight r = oh) \<and>
         (status r = 0 \<longrightarrow>
            (\<exists>c2. parsed_header lib (g_cinfo s) src srcSize = Some (JPEG_HEADER_OK, c2) \<and>
                  outWidth r = sint (image_width c2) \<and> outHeight r = sint (image_height c2))) \<and>
         (status r = 0 \<or> status r = - 1 \<or> status r = - 2 \<or> status r = - 3 \<or> status r = - 4)"
proof -
  from decode_gray_returned [OF assms] consider
    (nr) "r = \<lparr>status = - 1, globals = s, dst = m, outWidth = ow, outHeight = oh\<rparr>"
  | (ret) c where
         "decode_body lib (g_cinfo s) src srcSize m dstSize ow oh =
            Some (Body_return (status r) c (dst r) (outWidth r) (outHeight r))"
  | (err) "status r = - 4" "outWidth r = ow" "outHeight r = oh"
    by blast
  then show ?thesis
  proof cases
    case nr
    then show ?thesis by simp
  next
    case ret
    note st = decode_body_return [OF ret]
    show ?thesis
    proof (cases "status r = 0")
      case True
      with ret body_success_header [of lib "g_cinfo s" src srcSize m dstSize ow oh c "dst r"
          "outWidth r" "outHeight r"]
      show ?thesis by auto
    next
      case False
      with st show ?thesis by auto
    qed
  next
    case err
    then show ?thesis by simp
  qed
qed

text \<open>
  C10. The two out-parameter slots are written only on the path that returns 0, with the
  width and height of the parsed header; whenever the call returns another status (-1, -2,
  -3 or -4) both slots hold the values they had before the call. And the call does return,
  for a library that keeps its interface contract and a handle in a state the operations
  can produce.
\<close>

theorem out_params_frame:
  "(\<forall>r. jpeg_decode_gray lib s src srcSize m dstSize ow oh = Some (Return r) \<longrightarrow>
      (status r \<noteq> 0 \<longrightarrow> outWidth r = ow \<and> outHeight r = oh) \<and>
      (status r = 0 \<longrightarrow>
         (\<exists>c2. parsed_header lib (g_cinfo s) src srcSize = Some (JPEG_HEADER_OK, c2) \<and>
               outWidth r = sint (image_width c2) \<and> outHeight r = sint (image_height c2))) \<and>
      (status r = 0 \<or> status r = - 1 \<or> status r = - 2 \<or> status r = - 3 \<or> status r = - 4)) \<and>
   (libjpeg_api lib \<and> wired s \<longrightarrow>
      (\<exists>r. jpeg_decode_gray lib s src srcSize m dstSize ow oh = Some (Return r)))"
proof (intro conjI allI impI)
  fix r assume r: "jpeg_decode_gray lib s src srcSize m dstSize ow oh = Some (Return r)"
  note c = out_params_cases [OF r]
  from c show "status r \<noteq> 0 \<Longrightarrow> outWidth r = ow" by simp
  from c show "status r \<noteq> 0 \<Longrightarrow> outHeight r = oh" by simp
  from c show "status r = 0 \<Longrightarrow>
         \<exists>c2. parsed_header lib (g_cinfo s) src srcSize = Some (JPEG_HEADER_OK, c2) \<and>
               outWidth r = sint (image_width c2) \<and> outHeight r = sint (image_height c2)"
    by simp
  from c show "status r = 0 \<or> status r = - 1 \<or> status r = - 2 \<or> status r = - 3 \<or> status r = - 4"
    by simp
next
  assume "libjpeg_api lib \<and> wired s"
  then have "libjpeg_api lib" "wired s" by simp_all
  from decode_gray_total [OF this, of src srcSize m dstSize ow oh]
  show "\<exists>r. jpeg_decode_gray lib s src srcSize m dstSize ow oh = Some (Return r)"
    by blast
qed

theorem out_params_frame_witness:
  "libjpeg_api toy_codec \<and> wired toy_ready \<and>
   (\<exists>r. jpeg_decode_gray toy_codec toy_ready img2x2_cut 9 zeros 4 7 9 = Some (Return r) \<and>
        status r = - 4 \<and> outWidth r = 7 \<and> outHeight r = 9) \<and>
   (\<exists>r. jpeg_decode_gray toy_codec toy_ready img2x2 10 zeros 4 7 9 = Some (Return r) \<and>
        status r = 0 \<and> outWidth r = 2 \<and> outHeight r = 2)"
proof -
  have "\<exists>r. jpeg_decode_gray toy_codec toy_ready img2x2_cut 9 zeros 4 7 9 = Some (Return r)
              \<and> status r = - 4"
    by (simp add: jpeg_decode_gray_def decode_body_def toy_ready_def jpeg_decode_init_def
          initial_globals_def toy_codec_def toy_read_header_def toy_read_scanlines_def
          img2x2_cut_def read_rows.simps required_bytes_def MAX_CHUNK_DIM_def
          JPEG_HEADER_OK_def JPEG_SUSPENDED_def Let_def)
  then obtain r1 where
    r1: "jpeg_decode_gray toy_codec toy_ready img2x2_cut 9 zeros 4 7 9 = Some (Return r1)"
        "status r1 = - 4"
    by blast
  have "\<exists>r. jpeg_decode_gray toy_codec toy_ready img2x2 10 zeros 4 7 9 = Some (Return r)
              \<and> status r = 0"
    using decode_gray_clean [of toy_ready toy_codec img2x2 10 2 2 "[[10, 20], [30, 40]]" 4 zeros 7 9]
      toy_image_2x2 [of "g_cinfo toy_ready"] toy_ready_ready
    by (auto simp: ready_def)
  then obtain r2 where
    r2: "jpeg_decode_gray toy_codec toy_ready img2x2 10 zeros 4 7 9 = Some (Return r2)"
        "status r2 = 0"
    by blast
  have hdr: "parsed_header toy_codec (g_cinfo toy_ready) img2x2 10 =
      Some (JPEG_HEADER_OK, (g_cinfo toy_ready)\<lparr>image_width := 2, image_height := 2,
                                                   internal := img2x2\<rparr>)"
    by (simp add: parsed_header_def toy_codec_def toy_read_header_def img2x2_def Let_def
          JPEG_HEADER_OK_def)
  have "outWidth r1 = 7 \<and> outHeight r1 = 9"
    using out_params_frame [of toy_codec toy_ready img2x2_cut 9 zeros 4 7 9] r1 by simp
  moreover have "outWidth r2 = 2 \<and> outHeight r2 = 2"
    using out_params_frame [of toy_codec toy_ready img2x2 10 zeros 4 7 9] r2 hdr by simp
  ultimately show ?thesis
    using r1 r2 toy_api toy_ready_wired by blast
qed

section \<open>Streams whose header does not parse\<close>

lemma decode_header_error_exit:
  assumes "ready s" and "parsed_header lib (g_cinfo s) src srcSize = None"
  shows "\<exists>c. jpeg_decode_gray lib s src srcSize m dstSize ow oh =
           Some (Return \<lparr>status = - 4, globals = s\<lparr>g_cinfo := jpeg_abort_decompress lib c\<rparr>,
                         dst = m, outWidth = ow, outHeight = oh\<rparr>)"
  using assms
  by (auto simp: jpeg_decode_gray_def decode_body_def parsed_header_def ready_def
        split: call.splits)

lemma ready_after_decode:
  assumes "ready s" and "jpeg_decode_gray lib s src srcSize m dstSize ow oh = Some (Return r)"
  shows "ready (globals r)"
  using assms(1) decode_keeps_handle [OF assms(2)] by (simp add: ready_def)

section \<open>Initialize twice\<close>

lemma init_ready_noop: "g_initialized s \<noteq> 0 \<Longrightarrow> jpeg_decode_init lib s = (0, s)"
  by (simp add: jpeg_decode_init_def)

lemma init_success_flag: "fst (jpeg_decode_init lib s) = 0 \<Longrightarrow> g_initialized (snd (jpeg_decode_init lib s)) \<noteq> 0"
  by (auto simp: jpeg_decode_init_def Let_def split: call.splits if_splits)

lemma init_failure_again:
  assumes "create_failure_repeats lib" and "fst (jpeg_decode_init lib s) \<noteq> 0"
  shows "jpeg_decode_init lib (snd (jpeg_decode_init lib s)) = jpeg_decode_init lib s"
proof -
  from assms(2) have flag: "g_initialized s = 0"
    by (auto simp: jpeg_decode_init_def split: if_splits)
  from assms(2) flag obtain c' where
    f: "jpeg_create_decompress lib (g_cinfo s) = Error_exit c'"
    by (cases "jpeg_create_decompress lib (g_cinfo s)") (auto simp: jpeg_decode_init_def Let_def)
  with assms(1) have "jpeg_create_decompress lib c' = Error_exit c'"
    unfolding create_failure_repeats_def by blast
  with f flag show ?thesis
    by (simp add: jpeg_decode_init_def Let_def)
qed

text \<open>
  C9, as the claim states it, fails: a failed \<open>jpeg_decode_init\<close> leaves
  \<open>g_initialized\<close> 0 (line 44 returns before line 48), so a second call does not return
  at line 38 but calls \<open>jpeg_create_decompress\<close> again. Where creating the decompressor
  fails once and then works, one call returns -1 and leaves the handle not ready, and two
  calls in a row leave it ready.
\<close>

theorem init_retry_counterexample:
  "fst (jpeg_decode_init flaky_codec (initial_globals [])) = - 1 \<and>
   g_initialized (snd (jpeg_decode_init flaky_codec (initial_globals []))) = 0 \<and>
   fst (jpeg_decode_init flaky_codec (snd (jpeg_decode_init flaky_codec (initial_globals []))))
     = 0 \<and>
   g_initialized (snd (jpeg_decode_init flaky_codec
       (snd (jpeg_decode_init flaky_codec (initial_globals []))))) = 1"
  by (simp add: jpeg_decode_init_def flaky_codec_def toy_codec_def initial_globals_def)

text \<open>
  C9 as amended. On a handle that is already ready, \<open>jpeg_decode_init\<close> returns 0 and
  leaves the statics, the decompressor among them, exactly as they were, for every library:
  no library call is made. So after a call that returned 0 a second call changes nothing
  and returns 0 again, and two calls in a row are one call. After a call that failed the
  handle is still not ready and the second call tries again; the two calls are one call
  when the library's failure repeats (\<open>create_failure_repeats\<close>).
\<close>

theorem init_idempotent:
  "(g_initialized s \<noteq> 0 \<longrightarrow> jpeg_decode_init lib s = (0, s)) \<and>
   (fst (jpeg_decode_init lib s) = 0 \<longrightarrow>
      jpeg_decode_init lib (snd (jpeg_decode_init lib s)) = (0, snd (jpeg_decode_init lib s)) \<and>
      jpeg_decode_init lib (snd (jpeg_decode_init lib s)) = jpeg_decode_init lib s) \<and>
   (create_failure_repeats lib \<longrightarrow>
      jpeg_decode_init lib (snd (jpeg_decode_init lib s)) = jpeg_decode_init lib s)"
proof -
  have a: "g_initialized s \<noteq> 0 \<longrightarrow> jpeg_decode_init lib s = (0, s)"
    by (simp add: init_ready_noop)
  have b: "fst (jpeg_decode_init lib s) = 0 \<longrightarrow>
      jpeg_decode_init lib (snd (jpeg_decode_init lib s)) = (0, snd (jpeg_decode_init lib s)) \<and>
      jpeg_decode_init lib (snd (jpeg_decode_init lib s)) = jpeg_decode_init lib s"
  proof
    assume ok: "fst (jpeg_decode_init lib s) = 0"
    from init_ready_noop [OF init_success_flag [OF ok], of lib]
    have "jpeg_decode_init lib (snd (jpeg_decode_init lib s)) = (0, snd (jpeg_decode_init lib s))" .
    moreover from ok have "jpeg_decode_init lib s = (0, snd (jpeg_decode_init lib s))"
      by (metis prod.collapse)
    ultimately show
      "jpeg_decode_init lib (snd (jpeg_decode_init lib s)) = (0, snd (jpeg_decode_init lib s)) \<and>
       jpeg_decode_init lib (snd (jpeg_decode_init lib s)) = jpeg_decode_init lib s"
      by simp
  qed
  have c: "create_failure_repeats lib \<longrightarrow>
      jpeg_decode_init lib (snd (jpeg_decode_init lib s)) = jpeg_decode_init lib s"
    using b init_failure_again [of lib s] by blast
  from a b c show ?thesis by blast
qed

lemma failing_codec_repeats: "create_failure_repeats failing_codec"
  by (simp add: create_failure_repeats_def failing_codec_def)

theorem init_idempotent_witness:
  "g_initialized toy_ready \<noteq> 0 \<and> jpeg_decode_init toy_codec toy_ready = (0, toy_ready) \<and>
   fst (jpeg_decode_init toy_codec (initial_globals [])) = 0 \<and>
   jpeg_decode_init toy_codec (snd (jpeg_decode_init toy_codec (initial_globals [])))
     = jpeg_decode_init toy_codec (initial_globals []) \<and>
   create_failure_repeats failing_codec \<and>
   fst (jpeg_decode_init failing_codec (initial_globals [])) = - 1 \<and>
   jpeg_decode_init failing_codec (snd (jpeg_decode_init failing_codec (initial_globals [])))
     = jpeg_decode_init failing_codec (initial_globals [])"
proof -
  have h1: "g_initialized toy_ready \<noteq> 0"
    using toy_ready_ready by (simp add: ready_def)
  have h2: "fst (jpeg_decode_init toy_codec (initial_globals [])) = 0"
    by (simp add: jpeg_decode_init_def toy_codec_def initial_globals_def)
  have h3: "fst (jpeg_decode_init failing_codec (initial_globals [])) = - 1"
    by (simp add: jpeg_decode_init_def failing_codec_def toy_codec_def initial_globals_def)
  have w1: "jpeg_decode_init toy_codec toy_ready = (0, toy_ready)"
    using init_idempotent [of toy_ready toy_codec] h1 by blast
  have w2: "jpeg_decode_init toy_codec (snd (jpeg_decode_init toy_codec (initial_globals [])))
     = jpeg_decode_init toy_codec (initial_globals [])"
    using init_idempotent [of "initial_globals []" toy_codec] h2 by blast
  have w3: "jpeg_decode_init failing_codec
       (snd (jpeg_decode_init failing_codec (initial_globals [])))
     = jpeg_decode_init failing_codec (initial_globals [])"
    using init_idempotent [of "initial_globals []" failing_codec] failing_codec_repeats by blast
  from h1 h2 h3 failing_codec_repeats w1 w2 w3 show ?thesis
    by blast
qed

section \<open>Recovery from a fault of the codec\<close>

lemma lib_scan_read_rows:
  "lib_scan lib c k = Some e \<Longrightarrow>
     (case e of
        Scan_done c' \<Rightarrow> (\<exists>p' m'. read_rows lib c p m = Some (Loop_done c' p' m'))
      | Scan_error_exit c' \<Rightarrow> (\<exists>m'. read_rows lib c p m = Some (Loop_error_exit c' m')))"
proof (induction k arbitrary: c p m)
  case 0
  then show ?case
    by (auto simp: read_rows_done split: if_splits)
next
  case (Suc k)
  show ?case
  proof (cases "output_scanline c < output_height c")
    case False
    with Suc.prems show ?thesis
      by (auto simp: read_rows_done)
  next
    case lt: True
    show ?thesis
    proof (cases "jpeg_read_scanlines lib c")
      case (Error_exit cb)
      obtain c1 bs where cb: "cb = (c1, bs)" by (cases cb)
      with Error_exit lt Suc.prems have "e = Scan_error_exit c1"
        by simp
      with read_rows_error [OF lt, of lib c1 bs p m] Error_exit cb show ?thesis
        by simp
    next
      case (Returns r cb)
      obtain c1 bs where cb: "cb = (c1, bs)" by (cases cb)
      with Returns lt Suc.prems have "lib_scan lib c1 k = Some e"
        by simp
      from Suc.IH [OF this, of "p + unat (output_width c1)" "store m p bs"]
        read_rows_step [OF lt, of lib r c1 bs p m] Returns cb
      show ?thesis
        by (cases e) simp_all
    qed
  qed
qed

lemma body_fault_recovered:
  assumes "ready s"
    and "decode_body lib (g_cinfo s) src srcSize m dstSize ow oh = Some (Body_error_exit c' m')"
  shows "jpeg_decode_gray lib s src srcSize m dstSize ow oh =
           Some (Return \<lparr>status = - 4, globals = s\<lparr>g_cinfo := jpeg_abort_decompress lib c'\<rparr>,
                         dst = m', outWidth = ow, outHeight = oh\<rparr>)"
  using assms by (simp add: jpeg_decode_gray_def ready_def)

lemma decode_after_abort:
  assumes "ready s" and "abort_makes_idle lib idle"
    and "well_formed_jpeg lib idle src2 srcSize2 W H rows"
    and d: "0 < W" "W \<le> 4096" "0 < H" "H \<le> 4096" "unat W * unat H \<le> unat dstSize2"
  shows "\<exists>r. jpeg_decode_gray lib (s\<lparr>g_cinfo := jpeg_abort_decompress lib c'\<rparr>)
                 src2 srcSize2 m2 dstSize2 ow2 oh2 = Some (Return r) \<and>
              status r = 0 \<and> outWidth r = uint W \<and> outHeight r = uint H \<and>
              dst r = store m2 0 (concat rows)"
proof -
  let ?s' = "s\<lparr>g_cinfo := jpeg_abort_decompress lib c'\<rparr>"
  from assms(2) have "idle (jpeg_abort_decompress lib c')"
    by (simp add: abort_makes_idle_def)
  with assms(3) have "codec_image lib (g_cinfo ?s') src2 srcSize2 = Some (W, H, rows)"
    by (simp add: well_formed_jpeg_def)
  moreover from assms(1) have "g_initialized ?s' \<noteq> 0"
    by (simp add: ready_def)
  ultimately show ?thesis
    using decode_gray_clean [of ?s' lib src2 srcSize2 W H rows dstSize2 m2 ow2 oh2] d
    by blast
qed

text \<open>
  C1. On a ready handle (\<open>g_initialized\<close> set and, as in every reachable state,
  \<open>error_exit_handler\<close> installed), when the library calls \<open>error_exit\<close> at any of the
  five places under the recovery point, the call returns to the host with status -4
  instead of ending the process, and the decompressor it leaves is the one at the fault
  after \<open>jpeg_abort_decompress\<close>. The five places: \<open>jpeg_mem_src\<close>;
  \<open>jpeg_read_header\<close>; \<open>jpeg_start_decompress\<close>, once the header is parsed and the gates
  are passed; one of the \<open>jpeg_read_scanlines\<close> calls; and \<open>jpeg_finish_decompress\<close>
  after the last row. The handle is still ready, a next call on it never returns -1, and,
  \<open>jpeg_abort_decompress\<close> having made the decompressor idle, a next call with a
  well-formed image returns 0 with its width and height.
\<close>

theorem codec_fault_recovered:
  assumes "ready s"
  shows
    "(jpeg_mem_src lib (g_cinfo s) src srcSize = Error_exit c' \<longrightarrow>
        jpeg_decode_gray lib s src srcSize m dstSize ow oh =
          Some (Return \<lparr>status = - 4, globals = s\<lparr>g_cinfo := jpeg_abort_decompress lib c'\<rparr>,
                        dst = m, outWidth = ow, outHeight = oh\<rparr>)) \<and>
     (jpeg_mem_src lib (g_cinfo s) src srcSize = Returns ua ca \<and>
      jpeg_read_header lib ca True = Error_exit c' \<longrightarrow>
        jpeg_decode_gray lib s src srcSize m dstSize ow oh =
          Some (Return \<lparr>status = - 4, globals = s\<lparr>g_cinfo := jpeg_abort_decompress lib c'\<rparr>,
                        dst = m, outWidth = ow, outHeight = oh\<rparr>)) \<and>
     (parsed_header lib (g_cinfo s) src srcSize = Some (JPEG_HEADER_OK, cb) \<and>
      gates_passed cb dstSize \<and>
      jpeg_start_decompress lib (cb\<lparr>out_color_space := JCS_GRAYSCALE\<rparr>) = Error_exit c' \<longrightarrow>
        jpeg_decode_gray lib s src srcSize m dstSize ow oh =
          Some (Return \<lparr>status = - 4, globals = s\<lparr>g_cinfo := jpeg_abort_decompress lib c'\<rparr>,
                        dst = m, outWidth = ow, outHeight = oh\<rparr>)) \<and>
     (parsed_header lib (g_cinfo s) src srcSize = Some (JPEG_HEADER_OK, cb) \<and>
      gates_passed cb dstSize \<and>
      jpeg_start_decompress lib (cb\<lparr>out_color_space := JCS_GRAYSCALE\<rparr>) = Returns uc cc \<and>
      lib_scan lib cc k = Some (Scan_error_exit c') \<longrightarrow>
        (\<exists>m'. jpeg_decode_gray lib s src srcSize m dstSize ow oh =
          Some (Return \<lparr>status = - 4, globals = s\<lparr>g_cinfo := jpeg_abort_decompress lib c'\<rparr>,
                        dst = m', outWidth = ow, outHeight = oh\<rparr>))) \<and>
     (parsed_header lib (g_cinfo s) src srcSize = Some (JPEG_HEADER_OK, cb) \<and>
      gates_passed cb dstSize \<and>
      jpeg_start_decompress lib (cb\<lparr>out_color_space := JCS_GRAYSCALE\<rparr>) = Returns uc cc \<and>
      lib_scan lib cc k = Some (Scan_done cd) \<and>
      jpeg_finish_decompress lib cd = Error_exit c' \<longrightarrow>
        (\<exists>m'. jpeg_decode_gray lib s src srcSize m dstSize ow oh =
          Some (Return \<lparr>status = - 4, globals = s\<lparr>g_cinfo := jpeg_abort_decompress lib c'\<rparr>,
                        dst = m', outWidth = ow, outHeight = oh\<rparr>))) \<and>
     ready (s\<lparr>g_cinfo := jpeg_abort_decompress lib c'\<rparr>) \<and>
     (\<forall>r. jpeg_decode_gray lib (s\<lparr>g_cinfo := jpeg_abort_decompress lib c'\<rparr>)
             src' srcSize' m'' dstSize' ow' oh' = Some (Return r) \<longrightarrow> status r \<noteq> - 1) \<and>
     (abort_makes_idle lib idle \<and> well_formed_jpeg lib idle src' srcSize' W H rows \<and>
      0 < W \<and> W \<le> 4096 \<and> 0 < H \<and> H \<le> 4096 \<and> unat W * unat H \<le> unat dstSize' \<longrightarrow>
        (\<exists>r. jpeg_decode_gray lib (s\<lparr>g_cinfo := jpeg_abort_decompress lib c'\<rparr>)
                src' srcSize' m'' dstSize' ow' oh' = Some (Return r) \<and>
             status r = 0 \<and> outWidth r = uint W \<and> outHeight r = uint H))"
proof (intro conjI impI)
  let ?s' = "s\<lparr>g_cinfo := jpeg_abort_decompress lib c'\<rparr>"
  note rec = body_fault_recovered [OF assms, of lib src srcSize m dstSize ow oh c']
  {
    assume "jpeg_mem_src lib (g_cinfo s) src srcSize = Error_exit c'"
    from rec [OF error_exit_attach [OF this]]
    show "jpeg_decode_gray lib s src srcSize m dstSize ow oh =
          Some (Return \<lparr>status = - 4, globals = ?s', dst = m, outWidth = ow, outHeight = oh\<rparr>)" .
  next
    assume "jpeg_mem_src lib (g_cinfo s) src srcSize = Returns ua ca \<and>
      jpeg_read_header lib ca True = Error_exit c'"
    then have "decode_body lib (g_cinfo s) src srcSize m dstSize ow oh = Some (Body_error_exit c' m)"
      using error_exit_header by blast
    from rec [OF this]
    show "jpeg_decode_gray lib s src srcSize m dstSize ow oh =
          Some (Return \<lparr>status = - 4, globals = ?s', dst = m, outWidth = ow, outHeight = oh\<rparr>)" .
  next
    assume a: "parsed_header lib (g_cinfo s) src srcSize = Some (JPEG_HEADER_OK, cb) \<and>
      gates_passed cb dstSize \<and>
      jpeg_start_decompress lib (cb\<lparr>out_color_space := JCS_GRAYSCALE\<rparr>) = Error_exit c'"
    then have "decode_body lib (g_cinfo s) src srcSize m dstSize ow oh = Some (Body_error_exit c' m)"
      using error_exit_later(1) [of lib "g_cinfo s" src srcSize cb dstSize c' m ow oh]
      by (simp add: gates_passed_def)
    from rec [OF this]
    show "jpeg_decode_gray lib s src srcSize m dstSize ow oh =
          Some (Return \<lparr>status = - 4, globals = ?s', dst = m, outWidth = ow, outHeight = oh\<rparr>)" .
  next
    assume a: "parsed_header lib (g_cinfo s) src srcSize = Some (JPEG_HEADER_OK, cb) \<and>
      gates_passed cb dstSize \<and>
      jpeg_start_decompress lib (cb\<lparr>out_color_space := JCS_GRAYSCALE\<rparr>) = Returns uc cc \<and>
      lib_scan lib cc k = Some (Scan_error_exit c')"
    then have "lib_scan lib cc k = Some (Scan_error_exit c')" by simp
    from lib_scan_read_rows [OF this, of 0 m] obtain m' where
      "read_rows lib cc 0 m = Some (Loop_error_exit c' m')"
      by auto
    with a have "decode_body lib (g_cinfo s) src srcSize m dstSize ow oh
                   = Some (Body_error_exit c' m')"
      using error_exit_later(2) [of lib "g_cinfo s" src srcSize cb dstSize uc cc m c' m' ow oh]
      by (simp add: gates_passed_def)
    from rec [OF this]
    show "\<exists>m'. jpeg_decode_gray lib s src srcSize m dstSize ow oh =
          Some (Return \<lparr>status = - 4, globals = ?s', dst = m', outWidth = ow, outHeight = oh\<rparr>)"
      by blast
  next
    assume a: "parsed_header lib (g_cinfo s) src srcSize = Some (JPEG_HEADER_OK, cb) \<and>
      gates_passed cb dstSize \<and>
      jpeg_start_decompress lib (cb\<lparr>out_color_space := JCS_GRAYSCALE\<rparr>) = Returns uc cc \<and>
      lib_scan lib cc k = Some (Scan_done cd) \<and>
      jpeg_finish_decompress lib cd = Error_exit c'"
    then have "lib_scan lib cc k = Some (Scan_done cd)" by simp
    from lib_scan_read_rows [OF this, of 0 m] obtain p' m' where
      "read_rows lib cc 0 m = Some (Loop_done cd p' m')"
      by auto
    with a have "decode_body lib (g_cinfo s) src srcSize m dstSize ow oh
                   = Some (Body_error_exit c' m')"
      using error_exit_later(3) [of lib "g_cinfo s" src srcSize cb dstSize uc cc m cd p' m' c' ow oh]
      by (simp add: gates_passed_def)
    from rec [OF this]
    show "\<exists>m'. jpeg_decode_gray lib s src srcSize m dstSize ow oh =
          Some (Return \<lparr>status = - 4, globals = ?s', dst = m', outWidth = ow, outHeight = oh\<rparr>)"
      by blast
  next
    from assms show "ready ?s'"
      by (simp add: ready_def)
  next
    from assms have "g_initialized ?s' \<noteq> 0"
      by (simp add: ready_def)
    from decode_ready_status [OF this]
    show "\<forall>r. jpeg_decode_gray lib ?s' src' srcSize' m'' dstSize' ow' oh' = Some (Return r)
                \<longrightarrow> status r \<noteq> - 1"
      by fastforce
  next
    assume "abort_makes_idle lib idle \<and> well_formed_jpeg lib idle src' srcSize' W H rows \<and>
      0 < W \<and> W \<le> 4096 \<and> 0 < H \<and> H \<le> 4096 \<and> unat W * unat H \<le> unat dstSize'"
    then have h: "abort_makes_idle lib idle" "well_formed_jpeg lib idle src' srcSize' W H rows"
      "0 < W" "W \<le> 4096" "0 < H" "H \<le> 4096" "unat W * unat H \<le> unat dstSize'"
      by simp_all
    from decode_after_abort [OF assms h, of c' m'' ow' oh']
    show "\<exists>r. jpeg_decode_gray lib ?s' src' srcSize' m'' dstSize' ow' oh' = Some (Return r) \<and>
             status r = 0 \<and> outWidth r = uint W \<and> outHeight r = uint H"
      by blast
  }
qed

lemma lib_scan_numeral:
  "lib_scan lib c (numeral k) = lib_scan lib c (Suc (pred_numeral k))"
  by (simp add: numeral_eq_Suc)

lemma strict_ready_ready: "ready strict_ready"
  by (simp add: ready_def strict_ready_def jpeg_decode_init_def strict_codec_def
        initial_globals_def)

lemma strict_ready_idle: "strict_idle (g_cinfo strict_ready)"
  by (simp add: strict_idle_def strict_ready_def jpeg_decode_init_def strict_codec_def
        initial_globals_def)

lemma strict_ready_reachable: "reachable strict_codec strict_ready"
  unfolding strict_ready_def by (rule after_init) (rule at_start)

lemma strict_api: "libjpeg_api strict_codec"
  by (auto simp: libjpeg_api_def strict_codec_def strict_read_scanlines_def Let_def
        split: if_splits)

lemma strict_abort_idle: "abort_makes_idle strict_codec strict_idle"
  by (simp add: abort_makes_idle_def strict_idle_def strict_codec_def)

lemma strict_image_2x2:
  "well_formed_jpeg strict_codec strict_idle img2x2 10 2 2 [[10, 20], [30, 40]]"
  by (simp add: well_formed_jpeg_def strict_idle_def codec_image_def strict_codec_def
        strict_read_header_def strict_read_scanlines_def img2x2_def JPEG_HEADER_OK_def
        JPEG_SUSPENDED_def Let_def codec_rows_numeral)

theorem codec_fault_recovered_witness:
  "ready strict_ready \<and>
   (\<exists>c'. jpeg_mem_src strict_codec (g_cinfo strict_ready) img2x2 0 = Error_exit c') \<and>
   status_of (jpeg_decode_gray strict_codec strict_ready img2x2 0 zeros 4 7 7) = Some (- 4) \<and>
   (\<exists>u1 c1 c'. jpeg_mem_src strict_codec (g_cinfo strict_ready) not_jpeg 4 = Returns u1 c1 \<and>
       jpeg_read_header strict_codec c1 True = Error_exit c') \<and>
   status_of (jpeg_decode_gray strict_codec strict_ready not_jpeg 4 zeros 4 7 7) = Some (- 4) \<and>
   (\<exists>c2 c'. parsed_header no_gray_codec (g_cinfo strict_ready) img2x2 10
                = Some (JPEG_HEADER_OK, c2) \<and> gates_passed c2 4 \<and>
       jpeg_start_decompress no_gray_codec (c2\<lparr>out_color_space := JCS_GRAYSCALE\<rparr>)
         = Error_exit c') \<and>
   status_of (jpeg_decode_gray no_gray_codec strict_ready img2x2 10 zeros 4 7 7) = Some (- 4) \<and>
   (\<exists>c2 u3 c3 c'. parsed_header strict_codec (g_cinfo strict_ready) img2x2_cut 9
                = Some (JPEG_HEADER_OK, c2) \<and> gates_passed c2 4 \<and>
       jpeg_start_decompress strict_codec (c2\<lparr>out_color_space := JCS_GRAYSCALE\<rparr>)
         = Returns u3 c3 \<and>
       lib_scan strict_codec c3 2 = Some (Scan_error_exit c')) \<and>
   status_of (jpeg_decode_gray strict_codec strict_ready img2x2_cut 9 zeros 4 7 7) = Some (- 4) \<and>
   (\<exists>c2 u3 c3 c4 c'. parsed_header strict_codec (g_cinfo strict_ready) img2x2_tail 11
                = Some (JPEG_HEADER_OK, c2) \<and> gates_passed c2 4 \<and>
       jpeg_start_decompress strict_codec (c2\<lparr>out_color_space := JCS_GRAYSCALE\<rparr>)
         = Returns u3 c3 \<and>
       lib_scan strict_codec c3 2 = Some (Scan_done c4) \<and>
       jpeg_finish_decompress strict_codec c4 = Error_exit c') \<and>
   status_of (jpeg_decode_gray strict_codec strict_ready img2x2_tail 11 zeros 4 7 7) = Some (- 4) \<and>
   abort_makes_idle strict_codec strict_idle \<and>
   well_formed_jpeg strict_codec strict_idle img2x2 10 2 2 [[10, 20], [30, 40]] \<and>
   ready (handle_after (jpeg_decode_gray strict_codec strict_ready img2x2_cut 9 zeros 4 7 7)
            strict_ready) \<and>
   status_of (jpeg_decode_gray strict_codec
       (handle_after (jpeg_decode_gray strict_codec strict_ready img2x2_cut 9 zeros 4 7 7)
          strict_ready) img2x2 10 zeros 4 7 7) = Some 0"
proof -
  note defs = strict_ready_def jpeg_decode_init_def initial_globals_def strict_codec_def
    no_gray_codec_def strict_read_header_def strict_read_scanlines_def parsed_header_def
    gates_passed_def required_bytes_def MAX_CHUNK_DIM_def JPEG_HEADER_OK_def
    JPEG_SUSPENDED_def Let_def lib_scan_numeral img2x2_def img2x2_cut_def img2x2_tail_def
    not_jpeg_def
  have h1: "\<exists>c'. jpeg_mem_src strict_codec (g_cinfo strict_ready) img2x2 0 = Error_exit c'"
    by (simp add: defs)
  have h2: "\<exists>u1 c1 c'. jpeg_mem_src strict_codec (g_cinfo strict_ready) not_jpeg 4 = Returns u1 c1 \<and>
       jpeg_read_header strict_codec c1 True = Error_exit c'"
    by (simp add: defs)
  have h3: "\<exists>c2 c'. parsed_header no_gray_codec (g_cinfo strict_ready) img2x2 10
                = Some (JPEG_HEADER_OK, c2) \<and> gates_passed c2 4 \<and>
       jpeg_start_decompress no_gray_codec (c2\<lparr>out_color_space := JCS_GRAYSCALE\<rparr>)
         = Error_exit c'"
    by (simp add: defs)
  have h4: "\<exists>c2 u3 c3 c'. parsed_header strict_codec (g_cinfo strict_ready) img2x2_cut 9
                = Some (JPEG_HEADER_OK, c2) \<and> gates_passed c2 4 \<and>
       jpeg_start_decompress strict_codec (c2\<lparr>out_color_space := JCS_GRAYSCALE\<rparr>)
         = Returns u3 c3 \<and>
       lib_scan strict_codec c3 2 = Some (Scan_error_exit c')"
    by (simp add: defs; blast)
  have h5: "\<exists>c2 u3 c3 c4 c'. parsed_header strict_codec (g_cinfo strict_ready) img2x2_tail 11
                = Some (JPEG_HEADER_OK, c2) \<and> gates_passed c2 4 \<and>
       jpeg_start_decompress strict_codec (c2\<lparr>out_color_space := JCS_GRAYSCALE\<rparr>)
         = Returns u3 c3 \<and>
       lib_scan strict_codec c3 2 = Some (Scan_done c4) \<and>
       jpeg_finish_decompress strict_codec c4 = Error_exit c'"
    by (simp add: defs; blast)
  note T = codec_fault_recovered [OF strict_ready_ready]
  note at_attach = T [THEN conjunct1, rule_format]
    and at_header = T [THEN conjunct2, THEN conjunct1, rule_format]
    and at_start = T [THEN conjunct2, THEN conjunct2, THEN conjunct1, rule_format]
    and at_scan = T [THEN conjunct2, THEN conjunct2, THEN conjunct2, THEN conjunct1, rule_format]
    and at_finish = T [THEN conjunct2, THEN conjunct2, THEN conjunct2, THEN conjunct2,
        THEN conjunct1, rule_format]
    and still_ready = T [THEN conjunct2, THEN conjunct2, THEN conjunct2, THEN conjunct2,
        THEN conjunct2, THEN conjunct1]
    and next_ok = T [THEN conjunct2, THEN conjunct2, THEN conjunct2, THEN conjunct2,
        THEN conjunct2, THEN conjunct2, THEN conjunct2, rule_format]
  from h1 obtain fa where a: "jpeg_mem_src strict_codec (g_cinfo strict_ready) img2x2 0 = Error_exit fa"
    by blast
  have r1: "status_of (jpeg_decode_gray strict_codec strict_ready img2x2 0 zeros 4 7 7) = Some (- 4)"
    using at_attach [OF a, of zeros 4 7 7]
    by (simp add: status_of_def returned_def)
  from h2 obtain u1 c1 fb where
    b: "jpeg_mem_src strict_codec (g_cinfo strict_ready) not_jpeg 4 = Returns u1 c1 \<and>
        jpeg_read_header strict_codec c1 True = Error_exit fb"
    by blast
  have r2: "status_of (jpeg_decode_gray strict_codec strict_ready not_jpeg 4 zeros 4 7 7) = Some (- 4)"
    using at_header [OF b, of zeros 4 7 7]
    by (simp add: status_of_def returned_def)
  from h3 obtain c2 fc where
    c: "parsed_header no_gray_codec (g_cinfo strict_ready) img2x2 10 = Some (JPEG_HEADER_OK, c2) \<and>
        gates_passed c2 4 \<and>
        jpeg_start_decompress no_gray_codec (c2\<lparr>out_color_space := JCS_GRAYSCALE\<rparr>) = Error_exit fc"
    by blast
  have r3: "status_of (jpeg_decode_gray no_gray_codec strict_ready img2x2 10 zeros 4 7 7) = Some (- 4)"
    using at_start [OF c, of zeros 7 7]
    by (simp add: status_of_def returned_def)
  from h4 obtain d2 v3 d3 fd where
    d: "parsed_header strict_codec (g_cinfo strict_ready) img2x2_cut 9 = Some (JPEG_HEADER_OK, d2) \<and>
        gates_passed d2 4 \<and>
        jpeg_start_decompress strict_codec (d2\<lparr>out_color_space := JCS_GRAYSCALE\<rparr>) = Returns v3 d3 \<and>
        lib_scan strict_codec d3 2 = Some (Scan_error_exit fd)"
    by blast
  from at_scan [OF d, of zeros 7 7] obtain m' where
    r4: "jpeg_decode_gray strict_codec strict_ready img2x2_cut 9 zeros 4 7 7 =
          Some (Return \<lparr>status = - 4,
                        globals = strict_ready\<lparr>g_cinfo := jpeg_abort_decompress strict_codec fd\<rparr>,
                        dst = m', outWidth = 7, outHeight = 7\<rparr>)"
    by blast
  then have ha: "handle_after (jpeg_decode_gray strict_codec strict_ready img2x2_cut 9 zeros 4 7 7)
                   strict_ready = strict_ready\<lparr>g_cinfo := jpeg_abort_decompress strict_codec fd\<rparr>"
    by (simp add: handle_after_def returned_def)
  have rdy: "ready (strict_ready\<lparr>g_cinfo := jpeg_abort_decompress strict_codec fd\<rparr>)"
    by (rule still_ready)
  have nx: "abort_makes_idle strict_codec strict_idle \<and>
      well_formed_jpeg strict_codec strict_idle img2x2 10 2 2 [[10, 20], [30, 40]] \<and>
      (0 :: 32 word) < 2 \<and> (2 :: 32 word) \<le> 4096 \<and> (0 :: 32 word) < 2 \<and> (2 :: 32 word) \<le> 4096 \<and>
      unat (2 :: 32 word) * unat (2 :: 32 word) \<le> unat (4 :: 32 word)"
    using strict_abort_idle strict_image_2x2 by simp
  have r6: "status_of (jpeg_decode_gray strict_codec
           (strict_ready\<lparr>g_cinfo := jpeg_abort_decompress strict_codec fd\<rparr>)
           img2x2 10 zeros 4 7 7) = Some 0"
    using next_ok [OF nx, of fd zeros 7 7]
    by (auto simp: status_of_def returned_def)
  from h5 obtain e2 w3 e3 e4 fe where
    e: "parsed_header strict_codec (g_cinfo strict_ready) img2x2_tail 11 = Some (JPEG_HEADER_OK, e2) \<and>
        gates_passed e2 4 \<and>
        jpeg_start_decompress strict_codec (e2\<lparr>out_color_space := JCS_GRAYSCALE\<rparr>) = Returns w3 e3 \<and>
        lib_scan strict_codec e3 2 = Some (Scan_done e4) \<and>
        jpeg_finish_decompress strict_codec e4 = Error_exit fe"
    by blast
  have r5: "status_of (jpeg_decode_gray strict_codec strict_ready img2x2_tail 11 zeros 4 7 7)
              = Some (- 4)"
    using at_finish [OF e, of zeros 7 7]
    by (auto simp: status_of_def returned_def)
  from r4 have r4s: "status_of (jpeg_decode_gray strict_codec strict_ready img2x2_cut 9 zeros 4 7 7)
              = Some (- 4)"
    by (simp add: status_of_def returned_def)
  show ?thesis
    using strict_ready_ready h1 r1 h2 r2 h3 r3 h4 r4s h5 r5 strict_abort_idle strict_image_2x2
      rdy r6
    by (simp only: ha simp_thms)
qed

section \<open>Streams whose header does not parse: the outcome and the next call\<close>

text \<open>
  C5, as the claim states it, fails in two places. First, -2 is returned only when
  \<open>jpeg_read_header\<close> returns a code other than \<open>JPEG_HEADER_OK\<close>: a library that
  rejects a stream by \<open>error_exit\<close>, as libjpeg does for bytes that do not start a JPEG,
  takes the call to the recovery point and the status is -4, the code of \<open>CodecFault\<close>
  (here four random bytes). Second, the return of line 71 leaves the decompressor as the
  suspended header parse left it, without \<open>jpeg_abort_decompress\<close>: on the codec that
  checks the call sequence the header cut to four bytes returns -2, and the well-formed
  image that follows on the same handle returns -4.
\<close>

theorem header_fault_counterexample:
  "parsed_header toy_codec (g_cinfo toy_ready) not_jpeg 4 = None \<and>
   status_of (jpeg_decode_gray toy_codec toy_ready not_jpeg 4 zeros 4 7 7)
     = Some (status_code CodecFault) \<and>
   status_code CodecFault \<noteq> status_code HeaderInvalid \<and>
   status_of (jpeg_decode_gray strict_codec strict_ready cut_header 4 zeros 4 7 7)
     = Some (status_code HeaderInvalid) \<and>
   spec_decode_outcome strict_codec strict_ready cut_header 4 zeros 4 = Some HeaderInvalid \<and>
   codec_image strict_codec (g_cinfo strict_ready) img2x2 10 = Some (2, 2, [[10, 20], [30, 40]]) \<and>
   status_of (jpeg_decode_gray strict_codec
       (handle_after (jpeg_decode_gray strict_codec strict_ready cut_header 4 zeros 4 7 7)
          strict_ready) img2x2 10 zeros 4 7 7) = Some (status_code CodecFault)"
  by (simp add: parsed_header_def status_of_def returned_def handle_after_def
        jpeg_decode_gray_def decode_body_def spec_decode_outcome_def codec_image_def
        toy_ready_def strict_ready_def jpeg_decode_init_def initial_globals_def toy_codec_def
        strict_codec_def toy_read_header_def strict_read_header_def strict_read_scanlines_def
        not_jpeg_def cut_header_def img2x2_def JPEG_HEADER_OK_def JPEG_SUSPENDED_def Let_def
        codec_rows_numeral)

text \<open>
  C5 as amended. On a ready handle, when \<open>jpeg_read_header\<close> returns a code other than
  \<open>JPEG_HEADER_OK\<close> the call returns -2, the code of \<open>HeaderInvalid\<close>, with the
  destination and the slots untouched. When the library rejects the stream by
  \<open>error_exit\<close> while the input is attached or the header parsed, the call returns -4,
  the code of \<open>CodecFault\<close>, with the destination and the slots untouched and the
  decompressor aborted, and a next call on the same handle with a well-formed image
  returns 0 with the image's width and height. After either call the handle is still ready.
\<close>

theorem header_invalid:
  assumes "ready s"
  shows
    "(parsed_header lib (g_cinfo s) src srcSize = Some (rc, cb) \<and> rc \<noteq> JPEG_HEADER_OK \<longrightarrow>
        jpeg_decode_gray lib s src srcSize m dstSize ow oh =
          Some (Return \<lparr>status = status_code HeaderInvalid, globals = s\<lparr>g_cinfo := cb\<rparr>,
                        dst = m, outWidth = ow, outHeight = oh\<rparr>)) \<and>
     (parsed_header lib (g_cinfo s) src srcSize = None \<longrightarrow>
        (\<exists>c. jpeg_decode_gray lib s src srcSize m dstSize ow oh =
               Some (Return \<lparr>status = status_code CodecFault,
                             globals = s\<lparr>g_cinfo := jpeg_abort_decompress lib c\<rparr>,
                             dst = m, outWidth = ow, outHeight = oh\<rparr>) \<and>
             (abort_makes_idle lib idle \<and> well_formed_jpeg lib idle src' srcSize' W H rows \<and>
              0 < W \<and> W \<le> 4096 \<and> 0 < H \<and> H \<le> 4096 \<and> unat W * unat H \<le> unat dstSize' \<longrightarrow>
                (\<exists>r. jpeg_decode_gray lib (s\<lparr>g_cinfo := jpeg_abort_decompress lib c\<rparr>)
                        src' srcSize' m'' dstSize' ow' oh' = Some (Return r) \<and>
                     status r = 0 \<and> outWidth r = uint W \<and> outHeight r = uint H)))) \<and>
     (\<forall>r. jpeg_decode_gray lib s src srcSize m dstSize ow oh = Some (Return r) \<longrightarrow>
        ready (globals r))"
proof (intro conjI impI allI)
  from assms have flag: "g_initialized s \<noteq> 0"
    by (simp add: ready_def)
  {
    assume "parsed_header lib (g_cinfo s) src srcSize = Some (rc, cb) \<and> rc \<noteq> JPEG_HEADER_OK"
    then show "jpeg_decode_gray lib s src srcSize m dstSize ow oh =
          Some (Return \<lparr>status = status_code HeaderInvalid, globals = s\<lparr>g_cinfo := cb\<rparr>,
                        dst = m, outWidth = ow, outHeight = oh\<rparr>)"
      using header_gate [OF flag, of lib src srcSize rc cb m dstSize ow oh] by simp
  next
    assume "parsed_header lib (g_cinfo s) src srcSize = None"
    from decode_header_error_exit [OF assms this, of m dstSize ow oh] obtain c where
      c: "jpeg_decode_gray lib s src srcSize m dstSize ow oh =
           Some (Return \<lparr>status = - 4, globals = s\<lparr>g_cinfo := jpeg_abort_decompress lib c\<rparr>,
                         dst = m, outWidth = ow, outHeight = oh\<rparr>)"
      by blast
    have "abort_makes_idle lib idle \<and> well_formed_jpeg lib idle src' srcSize' W H rows \<and>
              0 < W \<and> W \<le> 4096 \<and> 0 < H \<and> H \<le> 4096 \<and> unat W * unat H \<le> unat dstSize' \<longrightarrow>
                (\<exists>r. jpeg_decode_gray lib (s\<lparr>g_cinfo := jpeg_abort_decompress lib c\<rparr>)
                        src' srcSize' m'' dstSize' ow' oh' = Some (Return r) \<and>
                     status r = 0 \<and> outWidth r = uint W \<and> outHeight r = uint H)"
    proof
      assume "abort_makes_idle lib idle \<and> well_formed_jpeg lib idle src' srcSize' W H rows \<and>
              0 < W \<and> W \<le> 4096 \<and> 0 < H \<and> H \<le> 4096 \<and> unat W * unat H \<le> unat dstSize'"
      then have h: "abort_makes_idle lib idle" "well_formed_jpeg lib idle src' srcSize' W H rows"
        "0 < W" "W \<le> 4096" "0 < H" "H \<le> 4096" "unat W * unat H \<le> unat dstSize'"
        by simp_all
      from decode_after_abort [OF assms h, of c m'' ow' oh']
      show "\<exists>r. jpeg_decode_gray lib (s\<lparr>g_cinfo := jpeg_abort_decompress lib c\<rparr>)
                        src' srcSize' m'' dstSize' ow' oh' = Some (Return r) \<and>
                     status r = 0 \<and> outWidth r = uint W \<and> outHeight r = uint H"
        by blast
    qed
    with c show "\<exists>c. jpeg_decode_gray lib s src srcSize m dstSize ow oh =
               Some (Return \<lparr>status = status_code CodecFault,
                             globals = s\<lparr>g_cinfo := jpeg_abort_decompress lib c\<rparr>,
                             dst = m, outWidth = ow, outHeight = oh\<rparr>) \<and>
             (abort_makes_idle lib idle \<and> well_formed_jpeg lib idle src' srcSize' W H rows \<and>
              0 < W \<and> W \<le> 4096 \<and> 0 < H \<and> H \<le> 4096 \<and> unat W * unat H \<le> unat dstSize' \<longrightarrow>
                (\<exists>r. jpeg_decode_gray lib (s\<lparr>g_cinfo := jpeg_abort_decompress lib c\<rparr>)
                        src' srcSize' m'' dstSize' ow' oh' = Some (Return r) \<and>
                     status r = 0 \<and> outWidth r = uint W \<and> outHeight r = uint H))"
      by (intro exI [of _ c]) simp
  next
    fix r assume "jpeg_decode_gray lib s src srcSize m dstSize ow oh = Some (Return r)"
    from ready_after_decode [OF assms this] show "ready (globals r)" .
  }
qed

theorem header_invalid_witness:
  "ready strict_ready \<and>
   parsed_header strict_codec (g_cinfo strict_ready) cut_header 4 =
     Some (JPEG_SUSPENDED, (g_cinfo strict_ready)\<lparr>internal := (DSTATE_INHEADER, cut_header)\<rparr>) \<and>
   JPEG_SUSPENDED \<noteq> JPEG_HEADER_OK \<and>
   jpeg_decode_gray strict_codec strict_ready cut_header 4 zeros 4 7 7 =
     Some (Return \<lparr>status = - 2,
                   globals = strict_ready\<lparr>g_cinfo :=
                     (g_cinfo strict_ready)\<lparr>internal := (DSTATE_INHEADER, cut_header)\<rparr>\<rparr>,
                   dst = zeros, outWidth = 7, outHeight = 7\<rparr>) \<and>
   parsed_header strict_codec (g_cinfo strict_ready) not_jpeg 4 = None \<and>
   abort_makes_idle strict_codec strict_idle \<and>
   well_formed_jpeg strict_codec strict_idle img2x2 10 2 2 [[10, 20], [30, 40]] \<and>
   status_of (jpeg_decode_gray strict_codec strict_ready not_jpeg 4 zeros 4 7 7) = Some (- 4) \<and>
   dst_at (jpeg_decode_gray strict_codec strict_ready not_jpeg 4 zeros 4 7 7) 0 = Some (zeros 0) \<and>
   ready (handle_after (jpeg_decode_gray strict_codec strict_ready not_jpeg 4 zeros 4 7 7)
            strict_ready) \<and>
   status_of (jpeg_decode_gray strict_codec
       (handle_after (jpeg_decode_gray strict_codec strict_ready not_jpeg 4 zeros 4 7 7)
          strict_ready) img2x2 10 zeros 4 7 7) = Some 0"
proof -
  let ?cb = "(g_cinfo strict_ready)\<lparr>internal := (DSTATE_INHEADER, cut_header)\<rparr>"
  note T = header_invalid [OF strict_ready_ready]
  have hdr: "parsed_header strict_codec (g_cinfo strict_ready) cut_header 4 =
      Some (JPEG_SUSPENDED, ?cb) \<and> JPEG_SUSPENDED \<noteq> JPEG_HEADER_OK"
    by (simp add: parsed_header_def strict_codec_def strict_read_header_def strict_ready_def
          jpeg_decode_init_def initial_globals_def cut_header_def Let_def JPEG_SUSPENDED_def
          JPEG_HEADER_OK_def)
  have r1: "jpeg_decode_gray strict_codec strict_ready cut_header 4 zeros 4 7 7 =
     Some (Return \<lparr>status = - 2, globals = strict_ready\<lparr>g_cinfo := ?cb\<rparr>,
                   dst = zeros, outWidth = 7, outHeight = 7\<rparr>)"
    using T [THEN conjunct1, rule_format, OF hdr, of zeros 4 7 7] by simp
  have none: "parsed_header strict_codec (g_cinfo strict_ready) not_jpeg 4 = None"
    by (simp add: parsed_header_def strict_codec_def strict_read_header_def strict_ready_def
          jpeg_decode_init_def initial_globals_def not_jpeg_def Let_def)
  from T [THEN conjunct2, THEN conjunct1, rule_format, OF none,
      where m = zeros and dstSize = 4 and ow = 7 and oh = 7 and idle = strict_idle
        and src' = img2x2 and srcSize' = 10 and W = 2 and H = 2
        and rows = "[[10, 20], [30, 40]]" and dstSize' = 4 and m'' = zeros and ow' = 7
        and oh' = 7]
  obtain c where
    r2: "jpeg_decode_gray strict_codec strict_ready not_jpeg 4 zeros 4 7 7 =
           Some (Return \<lparr>status = status_code CodecFault,
                         globals = strict_ready\<lparr>g_cinfo := jpeg_abort_decompress strict_codec c\<rparr>,
                         dst = zeros, outWidth = 7, outHeight = 7\<rparr>)" and
    nx: "abort_makes_idle strict_codec strict_idle \<and>
         well_formed_jpeg strict_codec strict_idle img2x2 10 2 2 [[10, 20], [30, 40]] \<and>
         (0 :: 32 word) < 2 \<and> (2 :: 32 word) \<le> 4096 \<and> (0 :: 32 word) < 2 \<and> (2 :: 32 word) \<le> 4096 \<and>
         unat (2 :: 32 word) * unat (2 :: 32 word) \<le> unat (4 :: 32 word) \<longrightarrow>
           (\<exists>r. jpeg_decode_gray strict_codec
                   (strict_ready\<lparr>g_cinfo := jpeg_abort_decompress strict_codec c\<rparr>)
                   img2x2 10 zeros 4 7 7 = Some (Return r) \<and>
                status r = 0 \<and> outWidth r = uint (2 :: 32 word) \<and> outHeight r = uint (2 :: 32 word))"
    by blast
  from r2 have ha: "handle_after (jpeg_decode_gray strict_codec strict_ready not_jpeg 4 zeros 4 7 7)
      strict_ready = strict_ready\<lparr>g_cinfo := jpeg_abort_decompress strict_codec c\<rparr>"
    by (simp add: handle_after_def returned_def)
  from nx strict_abort_idle strict_image_2x2 have
    r3: "status_of (jpeg_decode_gray strict_codec
           (strict_ready\<lparr>g_cinfo := jpeg_abort_decompress strict_codec c\<rparr>)
           img2x2 10 zeros 4 7 7) = Some 0"
    by (auto simp: status_of_def returned_def)
  have rdy: "ready (strict_ready\<lparr>g_cinfo := jpeg_abort_decompress strict_codec c\<rparr>)"
    using T [THEN conjunct2, THEN conjunct2, rule_format, OF r2] by simp
  from r2 have r2s: "status_of (jpeg_decode_gray strict_codec strict_ready not_jpeg 4 zeros 4 7 7)
        = Some (- 4)"
    and r2d: "dst_at (jpeg_decode_gray strict_codec strict_ready not_jpeg 4 zeros 4 7 7) 0
        = Some (zeros 0)"
    by (simp_all add: status_of_def dst_at_def returned_def)
  show ?thesis
    using strict_ready_ready hdr r1 none strict_abort_idle strict_image_2x2 r2s r2d rdy r3
    by (simp only: ha simp_thms)
qed

section \<open>A return before decompression starts, and the next call\<close>

text \<open>
  C2 on the code. The returns of lines 71, 78, 79 and 83 leave the function without
  \<open>jpeg_abort_decompress\<close>, which the recovery branch of line 63 calls, and without
  \<open>jpeg_finish_decompress\<close>, which the path to \<open>return 0\<close> calls: the decompressor
  stays as the header parse left it. On the codec that checks the call sequence, the handle
  after the first \<open>jpeg_decode_init\<close> decodes the well-formed 2 by 2 image into four
  bytes with status 0; but after a call that returned -3 (the same image, capacity 3), or
  -2 (a header claiming 5000 by 2), the handle is still ready and the same well-formed
  image with capacity 4 returns -4 and nothing is written.
\<close>

theorem early_return_blocks_next_decode:
  "codec_image strict_codec (g_cinfo strict_ready) img2x2 10 = Some (2, 2, [[10, 20], [30, 40]]) \<and>
   status_of (jpeg_decode_gray strict_codec strict_ready img2x2 10 zeros 4 7 7) = Some 0 \<and>
   status_of (jpeg_decode_gray strict_codec strict_ready img2x2 10 zeros 3 7 7) = Some (- 3) \<and>
   ready (handle_after (jpeg_decode_gray strict_codec strict_ready img2x2 10 zeros 3 7 7)
            strict_ready) \<and>
   status_of (jpeg_decode_gray strict_codec
       (handle_after (jpeg_decode_gray strict_codec strict_ready img2x2 10 zeros 3 7 7)
          strict_ready) img2x2 10 zeros 4 7 7) = Some (- 4) \<and>
   dst_at (jpeg_decode_gray strict_codec
       (handle_after (jpeg_decode_gray strict_codec strict_ready img2x2 10 zeros 3 7 7)
          strict_ready) img2x2 10 zeros 4 7 7) 0 = Some (zeros 0) \<and>
   status_of (jpeg_decode_gray strict_codec strict_ready wide_header 6 zeros 4 7 7) = Some (- 2) \<and>
   status_of (jpeg_decode_gray strict_codec
       (handle_after (jpeg_decode_gray strict_codec strict_ready wide_header 6 zeros 4 7 7)
          strict_ready) img2x2 10 zeros 4 7 7) = Some (- 4)"
proof -
  have "status_of (jpeg_decode_gray strict_codec strict_ready img2x2 10 zeros 4 7 7) = Some 0 \<and>
   status_of (jpeg_decode_gray strict_codec strict_ready img2x2 10 zeros 3 7 7) = Some (- 3) \<and>
   ready (handle_after (jpeg_decode_gray strict_codec strict_ready img2x2 10 zeros 3 7 7)
            strict_ready) \<and>
   status_of (jpeg_decode_gray strict_codec
       (handle_after (jpeg_decode_gray strict_codec strict_ready img2x2 10 zeros 3 7 7)
          strict_ready) img2x2 10 zeros 4 7 7) = Some (- 4) \<and>
   dst_at (jpeg_decode_gray strict_codec
       (handle_after (jpeg_decode_gray strict_codec strict_ready img2x2 10 zeros 3 7 7)
          strict_ready) img2x2 10 zeros 4 7 7) 0 = Some (zeros 0) \<and>
   status_of (jpeg_decode_gray strict_codec strict_ready wide_header 6 zeros 4 7 7) = Some (- 2) \<and>
   status_of (jpeg_decode_gray strict_codec
       (handle_after (jpeg_decode_gray strict_codec strict_ready wide_header 6 zeros 4 7 7)
          strict_ready) img2x2 10 zeros 4 7 7) = Some (- 4)"
    by (simp add: status_of_def dst_at_def returned_def handle_after_def ready_def
          jpeg_decode_gray_def decode_body_def strict_ready_def jpeg_decode_init_def
          initial_globals_def strict_codec_def strict_read_header_def
          strict_read_scanlines_def img2x2_def wide_header_def zeros_def read_rows.simps
          store_def required_bytes_def MAX_CHUNK_DIM_def JPEG_HEADER_OK_def
          JPEG_SUSPENDED_def Let_def)
  moreover have
    "codec_image strict_codec (g_cinfo strict_ready) img2x2 10 = Some (2, 2, [[10, 20], [30, 40]])"
    using strict_image_2x2 strict_ready_idle by (simp add: well_formed_jpeg_def)
  ultimately show ?thesis
    by simp
qed

theorem early_return_blocks_next_decode_witness:
  "status_of (jpeg_decode_gray strict_codec strict_ready img2x2 10 zeros 3 7 7) = Some (- 3) \<and>
   status_of (jpeg_decode_gray strict_codec
       (handle_after (jpeg_decode_gray strict_codec strict_ready img2x2 10 zeros 3 7 7)
          strict_ready) img2x2 10 zeros 4 7 7) = Some (- 4)"
  using early_return_blocks_next_decode by blast

end
